theory Spec2Isabelle
  imports Complex_Main
begin

section \<open>The versus simulator page: local re-simulation and team matching\<close>

text \<open>
  The development embeds the pure parts of the page component: the helpers
  \<open>roundScore\<close> and \<open>calculateWinProbability\<close>, the effect that recalculates the
  scores when a slider moves, and the team matching of \<open>runSimulation\<close>.

  A JavaScript \<open>number\<close> is modelled as a \<open>real\<close>: the arithmetic is the exact one,
  without the rounding of IEEE doubles, and without \<open>NaN\<close> or infinities. The two
  agree except where an exact value sits on a rounding tie or on a threshold of
  \<open>roundScore\<close>: there the double computation may land just beside it and round the
  other way (an exact 22.5 rounds to 23 here, while a double sum slightly below 22.5
  rounds to 22). \<open>undefined\<close> and \<open>null\<close> are \<open>None\<close>.
\<close>

subsection \<open>Numbers\<close>

text \<open>\<open>Math.round\<close>: the nearest integer, a half rounded towards plus infinity.\<close>

definition Math_round :: "real \<Rightarrow> real" where
  "Math_round x = of_int \<lfloor>x + 1 / 2\<rfloor>"

text \<open>\<open>a || b\<close> on numbers: \<open>b\<close> when \<open>a\<close> is zero.\<close>

definition orElse :: "real \<Rightarrow> real \<Rightarrow> real" where
  "orElse a b = (if a = 0 then b else a)"

text \<open>\<open>r ?? b\<close> on a nullable number.\<close>

definition nullish :: "real option \<Rightarrow> real \<Rightarrow> real" where
  "nullish r b = (case r of Some v \<Rightarrow> v | None \<Rightarrow> b)"

subsection \<open>Data\<close>

text \<open>The type \<open>Sport\<close> and the string each value is at run time.\<close>

datatype Sport = NFL | NBA | CollegeFootball | CollegeBasketball

fun sportCode :: "Sport \<Rightarrow> string" where
  "sportCode NFL = ''nfl''"
| "sportCode NBA = ''nba''"
| "sportCode CollegeFootball = ''college-football''"
| "sportCode CollegeBasketball = ''college-basketball''"

record SimulationResult =
  away_score :: real
  home_score :: real
  spread :: real
  total :: real
  away_win_probability :: real
  home_win_probability :: real

text \<open>The state \<open>originalRatings\<close>, captured from the simulation response.\<close>

record OriginalRatings =
  awayOffensiveNumericGrade :: real
  awayOffensiveRating :: real
  awayDefensiveNumericGrade :: real
  awayDefensiveRating :: real
  homeOffensiveNumericGrade :: real
  homeOffensiveRating :: real
  homeDefensiveNumericGrade :: real
  homeDefensiveRating :: real
  offensiveRange :: real
  defensiveRange :: real
  homeFieldAdvantage :: real

text \<open>
  The four slider states of the component (\<open>awayOffensiveNumericGrade\<close>,
  \<open>awayDefensiveNumericGrade\<close>, \<open>homeOffensiveNumericGrade\<close>,
  \<open>homeDefensiveNumericGrade\<close>), under the names the specification gives them.
\<close>

record SliderState =
  awayOff :: real
  awayDef :: real
  homeOff :: real
  homeDef :: real

text \<open>The four refs that track the current ratings.\<close>

record RatingRefs =
  currentAwayOffensiveRatingRef :: "real option"
  currentAwayDefensiveRatingRef :: "real option"
  currentHomeOffensiveRatingRef :: "real option"
  currentHomeDefensiveRatingRef :: "real option"

record WinProbability =
  home :: real
  away :: real

subsection \<open>\<open>roundScore\<close> and \<open>calculateWinProbability\<close>\<close>

definition roundScore :: "real \<Rightarrow> string \<Rightarrow> real" where
  "roundScore score sport =
     (if sport = ''cfb'' \<or> sport = ''nfl'' \<or> sport = ''college-football'' then
        (if score \<le> 2 then 0
         else if score > 2 \<and> score < 4.5 then 3
         else if score \<ge> 4.5 \<and> score < 6 then 6
         else Math_round score)
      else Math_round score)"

definition calculateWinProbability :: "real \<Rightarrow> real \<Rightarrow> string \<Rightarrow> WinProbability" where
  "calculateWinProbability homeScore awayScore sport =
     (let spreadv = homeScore - awayScore;
          k = (if sport = ''nba'' \<or> sport = ''college-basketball'' then 0.10
               else if sport = ''nfl'' \<or> sport = ''cfb'' \<or> sport = ''college-football'' then 0.15
               else 0.12);
          homeWinProb = 1 / (1 + exp (- k * spreadv));
          homev = max 0.001 (min 0.999 homeWinProb);
          awayv = 1 - homev
      in \<lparr>home = homev, away = awayv\<rparr>)"

subsection \<open>The effect that recalculates the scores\<close>

definition newRange :: real where
  "newRange = 99 - 60"

definition hfa :: "OriginalRatings \<Rightarrow> real" where
  "hfa originalRatings = orElse (homeFieldAdvantage originalRatings) 1.25"

definition awayOffChanged :: "OriginalRatings \<Rightarrow> SliderState \<Rightarrow> bool" where
  "awayOffChanged originalRatings s \<longleftrightarrow> awayOff s \<noteq> awayOffensiveNumericGrade originalRatings"

definition awayDefChanged :: "OriginalRatings \<Rightarrow> SliderState \<Rightarrow> bool" where
  "awayDefChanged originalRatings s \<longleftrightarrow> awayDef s \<noteq> awayDefensiveNumericGrade originalRatings"

definition homeOffChanged :: "OriginalRatings \<Rightarrow> SliderState \<Rightarrow> bool" where
  "homeOffChanged originalRatings s \<longleftrightarrow> homeOff s \<noteq> homeOffensiveNumericGrade originalRatings"

definition homeDefChanged :: "OriginalRatings \<Rightarrow> SliderState \<Rightarrow> bool" where
  "homeDefChanged originalRatings s \<longleftrightarrow> homeDef s \<noteq> homeDefensiveNumericGrade originalRatings"

text \<open>The current ratings, computed from the sliders, before and after rounding.\<close>

definition currentAwayOff :: "OriginalRatings \<Rightarrow> SliderState \<Rightarrow> real" where
  "currentAwayOff originalRatings s =
     (awayOff s - awayOffensiveNumericGrade originalRatings) * offensiveRange originalRatings
       / newRange + awayOffensiveRating originalRatings"

definition currentAwayDef :: "OriginalRatings \<Rightarrow> SliderState \<Rightarrow> real" where
  "currentAwayDef originalRatings s =
     (awayDef s - awayDefensiveNumericGrade originalRatings) * defensiveRange originalRatings
       / newRange + awayDefensiveRating originalRatings"

definition currentHomeOff :: "OriginalRatings \<Rightarrow> SliderState \<Rightarrow> real" where
  "currentHomeOff originalRatings s =
     (homeOff s - homeOffensiveNumericGrade originalRatings) * offensiveRange originalRatings
       / newRange + homeOffensiveRating originalRatings"

definition currentHomeDef :: "OriginalRatings \<Rightarrow> SliderState \<Rightarrow> real" where
  "currentHomeDef originalRatings s =
     (homeDef s - homeDefensiveNumericGrade originalRatings) * defensiveRange originalRatings
       / newRange + homeDefensiveRating originalRatings"

definition roundedAwayOff :: "OriginalRatings \<Rightarrow> SliderState \<Rightarrow> real" where
  "roundedAwayOff originalRatings s = Math_round (currentAwayOff originalRatings s * 100) / 100"

definition roundedAwayDef :: "OriginalRatings \<Rightarrow> SliderState \<Rightarrow> real" where
  "roundedAwayDef originalRatings s = Math_round (currentAwayDef originalRatings s * 100) / 100"

definition roundedHomeOff :: "OriginalRatings \<Rightarrow> SliderState \<Rightarrow> real" where
  "roundedHomeOff originalRatings s = Math_round (currentHomeOff originalRatings s * 100) / 100"

definition roundedHomeDef :: "OriginalRatings \<Rightarrow> SliderState \<Rightarrow> real" where
  "roundedHomeDef originalRatings s = Math_round (currentHomeDef originalRatings s * 100) / 100"

text \<open>The scores the formula gives at the original ratings.\<close>

definition calculatedOriginalAway :: "OriginalRatings \<Rightarrow> real" where
  "calculatedOriginalAway originalRatings =
     awayOffensiveRating originalRatings - homeDefensiveRating originalRatings + hfa originalRatings"

definition calculatedOriginalHome :: "OriginalRatings \<Rightarrow> real" where
  "calculatedOriginalHome originalRatings =
     homeOffensiveRating originalRatings - awayDefensiveRating originalRatings + hfa originalRatings"

text \<open>
  The four conditional blocks, in the order of the source. Each takes the pair
  \<open>(awayScore, homeScore)\<close> of the two mutable locals and returns it updated;
  \<open>originalAwayScore\<close> and \<open>originalHomeScore\<close> are the scores of the remote simulation.
\<close>

definition awayOffRule ::
  "OriginalRatings \<Rightarrow> SliderState \<Rightarrow> Sport \<Rightarrow> real \<Rightarrow> real \<times> real \<Rightarrow> real \<times> real" where
  "awayOffRule originalRatings s sport originalAwayScore scores =
     (case scores of (awayScore, homeScore) \<Rightarrow>
        if awayOffChanged originalRatings s then
          (if awayOff s = awayOffensiveNumericGrade originalRatings then
             (originalAwayScore, homeScore)
           else
             (let newCalculatedAway =
                    roundedAwayOff originalRatings s - roundedHomeDef originalRatings s
                      + hfa originalRatings;
                  delta = newCalculatedAway - calculatedOriginalAway originalRatings
              in (max 0 (roundScore (originalAwayScore + delta) (sportCode sport)), homeScore)))
        else (awayScore, homeScore))"

definition homeOffRule ::
  "OriginalRatings \<Rightarrow> SliderState \<Rightarrow> Sport \<Rightarrow> real \<Rightarrow> real \<times> real \<Rightarrow> real \<times> real" where
  "homeOffRule originalRatings s sport originalHomeScore scores =
     (case scores of (awayScore, homeScore) \<Rightarrow>
        if homeOffChanged originalRatings s then
          (if homeOff s = homeOffensiveNumericGrade originalRatings then
             (awayScore, originalHomeScore)
           else
             (let newCalculatedHome =
                    roundedHomeOff originalRatings s - roundedAwayDef originalRatings s
                      + hfa originalRatings;
                  delta = newCalculatedHome - calculatedOriginalHome originalRatings
              in (awayScore, max 0 (roundScore (originalHomeScore + delta) (sportCode sport)))))
        else (awayScore, homeScore))"

definition awayDefRule ::
  "OriginalRatings \<Rightarrow> SliderState \<Rightarrow> Sport \<Rightarrow> real \<Rightarrow> real \<times> real \<Rightarrow> real \<times> real" where
  "awayDefRule originalRatings s sport originalHomeScore scores =
     (case scores of (awayScore, homeScore) \<Rightarrow>
        if awayDefChanged originalRatings s then
          (if awayDef s = awayDefensiveNumericGrade originalRatings then
             (awayScore, originalHomeScore)
           else
             (let newCalculatedHome =
                    roundedHomeOff originalRatings s - roundedAwayDef originalRatings s
                      + hfa originalRatings;
                  delta = newCalculatedHome - calculatedOriginalHome originalRatings
              in (awayScore, max 0 (roundScore (originalHomeScore + delta) (sportCode sport)))))
        else (awayScore, homeScore))"

definition homeDefRule ::
  "OriginalRatings \<Rightarrow> SliderState \<Rightarrow> Sport \<Rightarrow> real \<Rightarrow> real \<times> real \<Rightarrow> real \<times> real" where
  "homeDefRule originalRatings s sport originalAwayScore scores =
     (case scores of (awayScore, homeScore) \<Rightarrow>
        if homeDefChanged originalRatings s then
          (if homeDef s = homeDefensiveNumericGrade originalRatings then
             (originalAwayScore, homeScore)
           else
             (let newCalculatedAway =
                    roundedAwayOff originalRatings s - roundedHomeDef originalRatings s
                      + hfa originalRatings;
                  delta = newCalculatedAway - calculatedOriginalAway originalRatings
              in (max 0 (roundScore (originalAwayScore + delta) (sportCode sport)), homeScore)))
        else (awayScore, homeScore))"

text \<open>
  The locals \<open>awayScore\<close> and \<open>homeScore\<close> after the four blocks: they start at the
  original scores and go through the blocks in the order away offense, home offense,
  away defense, home defense.
\<close>

definition recomputeScores ::
  "OriginalRatings \<Rightarrow> SliderState \<Rightarrow> Sport \<Rightarrow> real \<Rightarrow> real \<Rightarrow> real \<times> real" where
  "recomputeScores originalRatings s sport originalAwayScore originalHomeScore =
     homeDefRule originalRatings s sport originalAwayScore
       (awayDefRule originalRatings s sport originalHomeScore
          (homeOffRule originalRatings s sport originalHomeScore
             (awayOffRule originalRatings s sport originalAwayScore
                (originalAwayScore, originalHomeScore))))"

text \<open>The constant \<open>k\<close> of this path, selected by comparing the sport with string literals.\<close>

definition recompute_k :: "string \<Rightarrow> real" where
  "recompute_k sport =
     (if sport = ''nba'' \<or> sport = ''college-basketball'' then 0.13
      else if sport = ''nfl'' \<or> sport = ''college-football'' then 0.15
      else 0.13)"

text \<open>
  The object built from the locals at the end of the body: the scores after the four
  blocks, the spread, the total and the two probabilities.
\<close>

definition recomputedResult ::
  "OriginalRatings \<Rightarrow> SliderState \<Rightarrow> Sport \<Rightarrow> real \<Rightarrow> real \<Rightarrow> SimulationResult" where
  "recomputedResult originalRatings s sport originalAwayScore originalHomeScore =
     (case recomputeScores originalRatings s sport originalAwayScore originalHomeScore of
        (awayScore, homeScore) \<Rightarrow>
          (let spreadv = homeScore - awayScore;
               totalv = awayScore + homeScore;
               k = recompute_k (sportCode sport);
               homeWinProb = 1 / (1 + exp (- k * spreadv));
               homev = max 0.001 (min 0.999 homeWinProb);
               awayv = 1 - homev
           in \<lparr>away_score = awayScore,
               home_score = homeScore,
               spread = spreadv,
               total = totalv,
               away_win_probability = awayv,
               home_win_probability = homev\<rparr>))"

text \<open>
  The body of the effect once its guard has passed: the value of the state
  \<open>simulationResult\<close> after it, from the value before it. \<open>setSimulationResult\<close> is
  called only where the scores differ from the ones held; elsewhere the state stays.
\<close>

definition recompute ::
  "OriginalRatings \<Rightarrow> real option \<Rightarrow> real option \<Rightarrow> Sport \<Rightarrow> SliderState
     \<Rightarrow> SimulationResult \<Rightarrow> SimulationResult" where
  "recompute originalRatings originalAwayScoreRef originalHomeScoreRef sport s simulationResult =
     (let originalAwayScore = nullish originalAwayScoreRef (away_score simulationResult);
          originalHomeScore = nullish originalHomeScoreRef (home_score simulationResult)
      in
        if \<not> awayOffChanged originalRatings s \<and> \<not> awayDefChanged originalRatings s
           \<and> \<not> homeOffChanged originalRatings s \<and> \<not> homeDefChanged originalRatings s
        then
          (if away_score simulationResult \<noteq> originalAwayScore
              \<or> home_score simulationResult \<noteq> originalHomeScore
           then \<lparr>away_score = originalAwayScore,
                 home_score = originalHomeScore,
                 spread = originalHomeScore - originalAwayScore,
                 total = originalAwayScore + originalHomeScore,
                 away_win_probability = away_win_probability simulationResult,
                 home_win_probability = home_win_probability simulationResult\<rparr>
           else simulationResult)
        else
          (let r = recomputedResult originalRatings s sport originalAwayScore originalHomeScore
           in if away_score r \<noteq> away_score simulationResult
                 \<or> home_score r \<noteq> home_score simulationResult
              then r
              else simulationResult))"

text \<open>The rating refs after the body: written only past the short circuit.\<close>

definition recomputeRefs :: "OriginalRatings \<Rightarrow> SliderState \<Rightarrow> RatingRefs \<Rightarrow> RatingRefs" where
  "recomputeRefs originalRatings s refs =
     (if \<not> awayOffChanged originalRatings s \<and> \<not> awayDefChanged originalRatings s
         \<and> \<not> homeOffChanged originalRatings s \<and> \<not> homeDefChanged originalRatings s
      then refs
      else \<lparr>currentAwayOffensiveRatingRef = Some (roundedAwayOff originalRatings s),
            currentAwayDefensiveRatingRef = Some (roundedAwayDef originalRatings s),
            currentHomeOffensiveRatingRef = Some (roundedHomeOff originalRatings s),
            currentHomeDefensiveRatingRef = Some (roundedHomeDef originalRatings s)\<rparr>)"

text \<open>
  The effect with its guard: it returns at once unless the original ratings, a
  simulation result and both teams are there (a \<open>Sport\<close> is never the empty string).
  It yields the states \<open>simulationResult\<close> and the rating refs after the run.
\<close>

record Team =
  team_id :: string
  team_name :: string
  team_abbreviation :: "string option"

definition recomputeEffect ::
  "OriginalRatings option \<Rightarrow> SimulationResult option \<Rightarrow> Team option \<Rightarrow> Team option
     \<Rightarrow> Sport \<Rightarrow> real option \<Rightarrow> real option \<Rightarrow> SliderState \<Rightarrow> RatingRefs
     \<Rightarrow> SimulationResult option \<times> RatingRefs" where
  "recomputeEffect originalRatings simulationResult awayTeam homeTeam sport
       originalAwayScoreRef originalHomeScoreRef s refs =
     (case (originalRatings, simulationResult, awayTeam, homeTeam) of
        (Some ratings, Some result, Some a, Some h) \<Rightarrow>
          (Some (recompute ratings originalAwayScoreRef originalHomeScoreRef sport s result),
           recomputeRefs ratings s refs)
      | _ \<Rightarrow> (simulationResult, refs))"

subsection \<open>Consuming the simulation response\<close>

text \<open>
  An element of the array \<open>data.team\<close> of the response. The response is untyped, so
  every field may be absent.
\<close>

record ApiTeam =
  t_name :: "string option"
  t_abbreviation :: "string option"
  t_venue :: "string option"
  t_score :: "real option"
  t_winProbability :: "real option"

record Outcome =
  pointSpread :: "real option"
  totalPoints :: "real option"

text \<open>
  \<open>String.prototype.toLowerCase\<close> on the ASCII letters; a \<open>char\<close> is a byte, and the
  bytes outside \<open>A\<close> to \<open>Z\<close> stay. The source lowers every Unicode letter, so the two
  agree on ASCII names and abbreviations only; an upper-case letter outside ASCII is
  lowered by the source and kept here.
\<close>

definition toLowerChar :: "char \<Rightarrow> char" where
  "toLowerChar c =
     (let n = (of_char c :: nat) in if 65 \<le> n \<and> n \<le> 90 then char_of (n + 32) else c)"

definition toLowerCase :: "string \<Rightarrow> string" where
  "toLowerCase str = map toLowerChar str"

text \<open>
  The predicate handed to the first \<open>find\<close>. \<open>x?.toLowerCase()\<close> is \<open>undefined\<close> when
  \<open>x\<close> is, and \<open>===\<close> holds between two \<open>undefined\<close>.
\<close>

definition matchesTeam :: "Team \<Rightarrow> ApiTeam \<Rightarrow> bool" where
  "matchesTeam selected t \<longleftrightarrow>
     t_name t = Some (team_name selected)
     \<or> map_option toLowerCase (t_name t) = Some (toLowerCase (team_name selected))
     \<or> t_abbreviation t = team_abbreviation selected
     \<or> map_option toLowerCase (t_abbreviation t)
         = map_option toLowerCase (team_abbreviation selected)"

text \<open>\<open>a || b\<close> on a value that is an object or \<open>undefined\<close>.\<close>

definition orElseTeam :: "ApiTeam option \<Rightarrow> ApiTeam option \<Rightarrow> ApiTeam option" where
  "orElseTeam a b = (case a of Some t \<Rightarrow> Some t | None \<Rightarrow> b)"

text \<open>\<open>teams[i]\<close>: \<open>undefined\<close> past the end.\<close>

definition at_index :: "ApiTeam list \<Rightarrow> nat \<Rightarrow> ApiTeam option" where
  "at_index teams i = (if i < length teams then Some (teams ! i) else None)"

definition awayTeamData :: "ApiTeam list \<Rightarrow> Team \<Rightarrow> ApiTeam option" where
  "awayTeamData teams awayTeam =
     orElseTeam (orElseTeam (find (matchesTeam awayTeam) teams)
                            (find (\<lambda>t. t_venue t = Some ''Away'') teams))
                (at_index teams 0)"

definition homeTeamData :: "ApiTeam list \<Rightarrow> Team \<Rightarrow> ApiTeam option" where
  "homeTeamData teams homeTeam =
     orElseTeam (orElseTeam (find (matchesTeam homeTeam) teams)
                            (find (\<lambda>t. t_venue t = Some ''Home'') teams))
                (at_index teams 1)"

text \<open>\<open>x?.f || d\<close> for a numeric field: \<open>d\<close> when the object or the field is absent, or zero.\<close>

definition fieldOr :: "ApiTeam option \<Rightarrow> (ApiTeam \<Rightarrow> real option) \<Rightarrow> real \<Rightarrow> real" where
  "fieldOr t f d =
     (case t of None \<Rightarrow> d
      | Some x \<Rightarrow> (case f x of None \<Rightarrow> d | Some v \<Rightarrow> orElse v d))"

definition numberOr :: "real option \<Rightarrow> real \<Rightarrow> real" where
  "numberOr x d = (case x of None \<Rightarrow> d | Some v \<Rightarrow> orElse v d)"

text \<open>The object \<open>transformed\<close>, the first value of \<open>simulationResult\<close>.\<close>

definition transformed :: "ApiTeam option \<Rightarrow> ApiTeam option \<Rightarrow> Outcome \<Rightarrow> SimulationResult" where
  "transformed awayData homeData outcome =
     \<lparr>away_score = fieldOr awayData t_score 0,
      home_score = fieldOr homeData t_score 0,
      spread = numberOr (pointSpread outcome) 0,
      total = numberOr (totalPoints outcome) 0,
      away_win_probability = fieldOr awayData t_winProbability 0 / 100,
      home_win_probability = fieldOr homeData t_winProbability 0 / 100\<rparr>"

subsection \<open>The matching chain as the specification words it\<close>

text \<open>
  The specification describes an ordered chain of six rules, each tried over the whole
  array before the next: exact name, name without case, exact abbreviation,
  abbreviation without case, the venue, the position. This is that chain, for
  comparison with \<open>awayTeamData\<close>.
\<close>

definition specAwayTeamData :: "ApiTeam list \<Rightarrow> Team \<Rightarrow> ApiTeam option" where
  "specAwayTeamData teams awayTeam =
     orElseTeam (find (\<lambda>t. t_name t = Some (team_name awayTeam)) teams)
    (orElseTeam (find (\<lambda>t. map_option toLowerCase (t_name t)
                            = Some (toLowerCase (team_name awayTeam))) teams)
    (orElseTeam (find (\<lambda>t. t_abbreviation t = team_abbreviation awayTeam) teams)
    (orElseTeam (find (\<lambda>t. map_option toLowerCase (t_abbreviation t)
                            = map_option toLowerCase (team_abbreviation awayTeam)) teams)
    (orElseTeam (find (\<lambda>t. t_venue t = Some ''Away'') teams)
                (at_index teams 0)))))"

subsection \<open>The scenario of the specification\<close>

text \<open>
  Baseline scores 17 and 24, home field advantage 1.25, away offense grade 80 at rating
  10, home defense grade 78 at rating 8, both ranges 20; the away-offense slider goes
  to 90. The grades and ratings the specification leaves open are filled in.
\<close>

definition scenarioRatings :: OriginalRatings where
  "scenarioRatings =
     \<lparr>awayOffensiveNumericGrade = 80, awayOffensiveRating = 10,
      awayDefensiveNumericGrade = 75, awayDefensiveRating = 5,
      homeOffensiveNumericGrade = 82, homeOffensiveRating = 11,
      homeDefensiveNumericGrade = 78, homeDefensiveRating = 8,
      offensiveRange = 20, defensiveRange = 20, homeFieldAdvantage = 1.25\<rparr>"

definition scenarioBaseline :: SliderState where
  "scenarioBaseline = \<lparr>awayOff = 80, awayDef = 75, homeOff = 82, homeDef = 78\<rparr>"

definition scenarioResult :: SimulationResult where
  "scenarioResult =
     \<lparr>away_score = 17, home_score = 24, spread = 7, total = 41,
      away_win_probability = 0.3, home_win_probability = 0.7\<rparr>"

text \<open>
  A response to go with the scenario: the two teams with their scores, and an outcome
  that carries neither \<open>pointSpread\<close> nor \<open>totalPoints\<close>.
\<close>

definition scenarioAwayData :: ApiTeam where
  "scenarioAwayData =
     \<lparr>t_name = Some ''Dallas Cowboys'', t_abbreviation = Some ''DAL'', t_venue = Some ''Away'',
      t_score = Some 17, t_winProbability = Some 30\<rparr>"

definition scenarioHomeData :: ApiTeam where
  "scenarioHomeData =
     \<lparr>t_name = Some ''New York Giants'', t_abbreviation = Some ''NYG'', t_venue = Some ''Home'',
      t_score = Some 24, t_winProbability = Some 70\<rparr>"

definition scenarioOutcome :: Outcome where
  "scenarioOutcome = \<lparr>pointSpread = None, totalPoints = None\<rparr>"

text \<open>A lopsided college football baseline, 10 to 66, on the ratings of the scenario.\<close>

definition blowoutResult :: SimulationResult where
  "blowoutResult =
     \<lparr>away_score = 10, home_score = 66, spread = 56, total = 76,
      away_win_probability = 0.02, home_win_probability = 0.98\<rparr>"

text \<open>A football baseline whose away score is 1, on the ratings of the scenario.\<close>

definition lowScoreResult :: SimulationResult where
  "lowScoreResult =
     \<lparr>away_score = 1, home_score = 24, spread = 23, total = 25,
      away_win_probability = 0.03, home_win_probability = 0.97\<rparr>"

text \<open>
  Two college teams that share an abbreviation, the selected away team, and the two
  elements of a response that lists the home team first.
\<close>

definition mississippiState :: Team where
  "mississippiState =
     \<lparr>team_id = ''344'', team_name = ''Mississippi State'', team_abbreviation = Some ''MSU''\<rparr>"

definition michiganStateData :: ApiTeam where
  "michiganStateData =
     \<lparr>t_name = Some ''Michigan State'', t_abbreviation = Some ''MSU'', t_venue = Some ''Home'',
      t_score = Some 24, t_winProbability = Some 70\<rparr>"

definition mississippiStateData :: ApiTeam where
  "mississippiStateData =
     \<lparr>t_name = Some ''Mississippi State'', t_abbreviation = Some ''MSU'', t_venue = Some ''Away'',
      t_score = Some 17, t_winProbability = Some 30\<rparr>"

text \<open>A selected team without an abbreviation, which the type \<open>Team\<close> allows.\<close>

definition dallasCowboys :: Team where
  "dallasCowboys =
     \<lparr>team_id = ''6'', team_name = ''Dallas Cowboys'', team_abbreviation = None\<rparr>"

text \<open>
  A result held after earlier slider moves, whose scores are not the ones in the refs
  of the scenario (17 and 24).
\<close>

definition heldResult :: SimulationResult where
  "heldResult =
     \<lparr>away_score = 22, home_score = 31, spread = 9, total = 53,
      away_win_probability = 0.2, home_win_probability = 0.8\<rparr>"

section \<open>Properties\<close>

subsection \<open>Rounding\<close>

lemma Math_round_lower: "x - 1 / 2 < Math_round x"
  unfolding Math_round_def by linarith

lemma Math_round_upper: "Math_round x \<le> x + 1 / 2"
  unfolding Math_round_def by linarith

lemma Math_round_int: "Math_round x \<in> \<int>"
  unfolding Math_round_def by simp

lemma Math_round_mono: "x \<le> y \<Longrightarrow> Math_round x \<le> Math_round y"
  unfolding Math_round_def by (simp add: floor_mono)

lemma Math_round_ge_of_int: "of_int n \<le> x + 1 / 2 \<Longrightarrow> of_int n \<le> Math_round x"
  unfolding Math_round_def by (simp add: le_floor_iff)

lemma Math_round_le_of_int: "x + 1 / 2 < of_int n + 1 \<Longrightarrow> Math_round x \<le> of_int n"
  unfolding Math_round_def by (simp add: floor_less_iff) linarith

text \<open>No integer is nearer to \<open>x\<close> than \<open>Math.round(x)\<close>.\<close>

lemma Math_round_nearest: "\<bar>Math_round x - x\<bar> \<le> \<bar>of_int n - x\<bar>"
proof -
  define m where "m = \<lfloor>x + 1 / 2\<rfloor>"
  have lo: "of_int m \<le> x + 1 / 2" and hi: "x + 1 / 2 < of_int m + 1"
    unfolding m_def by linarith+
  consider "n < m" | "n = m" | "m < n" by linarith
  then have "\<bar>of_int m - x\<bar> \<le> \<bar>of_int n - x\<bar>"
  proof cases
    case 1
    then have "n + 1 \<le> m" by simp
    then have "(of_int n :: real) + 1 \<le> of_int m"
      by (metis of_int_1 of_int_add of_int_le_iff)
    with lo hi show ?thesis by linarith
  next
    case 2
    then show ?thesis by simp
  next
    case 3
    then have "m + 1 \<le> n" by simp
    then have "(of_int m :: real) + 1 \<le> of_int n"
      by (metis of_int_1 of_int_add of_int_le_iff)
    with lo hi show ?thesis by linarith
  qed
  then show ?thesis unfolding Math_round_def m_def .
qed

lemma roundScore_mono: "x \<le> y \<Longrightarrow> roundScore x sport \<le> roundScore y sport"
proof -
  assume xy: "x \<le> y"
  have six: "6 \<le> y \<Longrightarrow> 6 \<le> Math_round y"
    using Math_round_ge_of_int [of 6 y] by simp
  have three: "6 \<le> y \<Longrightarrow> 3 \<le> Math_round y" "6 \<le> y \<Longrightarrow> 0 \<le> Math_round y"
    using six by linarith+
  show ?thesis
    using xy Math_round_mono [OF xy] six three
    unfolding roundScore_def by (auto simp: not_le not_less)
qed

text \<open>Flooring at zero before or after the rounding policy gives the same score.\<close>

lemma roundScore_floor_commute:
  "max 0 (roundScore x sport) = roundScore (max 0 x) sport"
proof (cases "0 \<le> x")
  case True
  have "0 \<le> Math_round x" using Math_round_ge_of_int [of 0 x] True by simp
  then have "0 \<le> roundScore x sport" unfolding roundScore_def by auto
  with True show ?thesis by (simp add: max_def)
next
  case False
  then have x: "x < 0" by simp
  have "Math_round x \<le> 0" using Math_round_le_of_int [of x 0] x by simp
  then have "roundScore x sport \<le> 0" using x unfolding roundScore_def by auto
  moreover have "roundScore 0 sport = 0" unfolding roundScore_def Math_round_def by simp
  ultimately show ?thesis using x by (simp add: max_def)
qed

text \<open>
  Claim C5. With a football code (\<open>nfl\<close>, \<open>cfb\<close>, \<open>college-football\<close>), \<open>roundScore\<close>
  sends a raw score of at most 2 to 0, a score strictly between 2 and 4.5 to 3, a score
  from 4.5 up to but excluding 6 to 6, and any other score (from 6 on) to
  \<open>Math.round\<close> of it; with any other code it is \<open>Math.round\<close>. \<open>Math.round\<close> is an
  integer no farther from the score than any other integer. The five entries of the
  rounding table of the specification hold.
\<close>

theorem roundScore_table:
  "(sport = ''nfl'' \<or> sport = ''cfb'' \<or> sport = ''college-football'' \<longrightarrow>
      (s \<le> 2 \<longrightarrow> roundScore s sport = 0)
      \<and> (2 < s \<and> s < 4.5 \<longrightarrow> roundScore s sport = 3)
      \<and> (4.5 \<le> s \<and> s < 6 \<longrightarrow> roundScore s sport = 6)
      \<and> (6 \<le> s \<longrightarrow> roundScore s sport = Math_round s))
   \<and> (sport \<noteq> ''nfl'' \<and> sport \<noteq> ''cfb'' \<and> sport \<noteq> ''college-football'' \<longrightarrow>
        roundScore s sport = Math_round s)
   \<and> Math_round s \<in> \<int>
   \<and> (\<forall>n::int. \<bar>Math_round s - s\<bar> \<le> \<bar>of_int n - s\<bar>)
   \<and> roundScore 1.9 ''nfl'' = 0
   \<and> roundScore 3.0 ''nfl'' = 3
   \<and> roundScore 4.4 ''nfl'' = 3
   \<and> roundScore 5.9 ''nfl'' = 6
   \<and> roundScore 10.2 ''nfl'' = 10"
proof -
  have table: "roundScore 1.9 ''nfl'' = 0" "roundScore 3.0 ''nfl'' = 3"
    "roundScore 4.4 ''nfl'' = 3" "roundScore 5.9 ''nfl'' = 6" "roundScore 10.2 ''nfl'' = 10"
    by (simp_all add: roundScore_def Math_round_def)
  have cases: "sport = ''nfl'' \<or> sport = ''cfb'' \<or> sport = ''college-football'' \<longrightarrow>
      (s \<le> 2 \<longrightarrow> roundScore s sport = 0)
      \<and> (2 < s \<and> s < 4.5 \<longrightarrow> roundScore s sport = 3)
      \<and> (4.5 \<le> s \<and> s < 6 \<longrightarrow> roundScore s sport = 6)
      \<and> (6 \<le> s \<longrightarrow> roundScore s sport = Math_round s)"
    unfolding roundScore_def by auto
  have other: "sport \<noteq> ''nfl'' \<and> sport \<noteq> ''cfb'' \<and> sport \<noteq> ''college-football'' \<longrightarrow>
      roundScore s sport = Math_round s"
    unfolding roundScore_def by simp
  show ?thesis
    using table cases other Math_round_int [of s] Math_round_nearest [of s] by blast
qed

theorem roundScore_table_witness:
  "roundScore 1 ''cfb'' = 0
   \<and> roundScore 4 ''college-football'' = 3
   \<and> roundScore 5 ''nfl'' = 6
   \<and> roundScore 7.5 ''nfl'' = 8
   \<and> roundScore 7.5 ''nba'' = 8
   \<and> roundScore 1 ''nba'' = 1"
proof -
  have r: "Math_round 7.5 = 8" "Math_round 1 = 1" by (simp_all add: Math_round_def)
  show ?thesis
    using roundScore_table [of "''cfb''" 1] roundScore_table [of "''college-football''" 4]
      roundScore_table [of "''nfl''" 5] roundScore_table [of "''nfl''" "7.5"]
      roundScore_table [of "''nba''" "7.5"] roundScore_table [of "''nba''" 1] r
    by simp
qed

subsection \<open>The scores after the four blocks\<close>

lemma recomputeScores_fst:
  "fst (recomputeScores orig s sport oa oh) =
     (if awayOffChanged orig s \<or> homeDefChanged orig s
      then max 0 (roundScore (oa + (roundedAwayOff orig s - roundedHomeDef orig s + hfa orig
                                      - calculatedOriginalAway orig)) (sportCode sport))
      else oa)"
  unfolding recomputeScores_def awayOffRule_def homeOffRule_def awayDefRule_def homeDefRule_def
    awayOffChanged_def homeDefChanged_def homeOffChanged_def awayDefChanged_def
  by (simp add: Let_def)

lemma recomputeScores_snd:
  "snd (recomputeScores orig s sport oa oh) =
     (if homeOffChanged orig s \<or> awayDefChanged orig s
      then max 0 (roundScore (oh + (roundedHomeOff orig s - roundedAwayDef orig s + hfa orig
                                      - calculatedOriginalHome orig)) (sportCode sport))
      else oh)"
  unfolding recomputeScores_def awayOffRule_def homeOffRule_def awayDefRule_def homeDefRule_def
    awayOffChanged_def homeDefChanged_def homeOffChanged_def awayDefChanged_def
  by (simp add: Let_def)

lemma recomputedResult_scores:
  "away_score (recomputedResult orig s sport oa oh) = fst (recomputeScores orig s sport oa oh)"
  "home_score (recomputedResult orig s sport oa oh) = snd (recomputeScores orig s sport oa oh)"
  unfolding recomputedResult_def by (simp_all add: Let_def split: prod.split)

lemma recomputeScores_unchanged:
  "\<not> awayOffChanged orig s \<Longrightarrow> \<not> awayDefChanged orig s \<Longrightarrow> \<not> homeOffChanged orig s
     \<Longrightarrow> \<not> homeDefChanged orig s \<Longrightarrow> recomputeScores orig s sport oa oh = (oa, oh)"
  unfolding recomputeScores_def awayOffRule_def homeOffRule_def awayDefRule_def homeDefRule_def
  by simp

text \<open>
  Whether or not the effect publishes a new object, the scores held by the state after
  it are the two locals.
\<close>

lemma recompute_away_score:
  "away_score (recompute orig refA refH sport s prev) =
     fst (recomputeScores orig s sport (nullish refA (away_score prev))
            (nullish refH (home_score prev)))"
proof (cases "\<not> awayOffChanged orig s \<and> \<not> awayDefChanged orig s
           \<and> \<not> homeOffChanged orig s \<and> \<not> homeDefChanged orig s")
  case True
  then show ?thesis
    unfolding recompute_def by (auto simp: Let_def recomputeScores_unchanged)
next
  case False
  then show ?thesis
    unfolding recompute_def by (auto simp: Let_def recomputedResult_scores)
qed

lemma recompute_home_score:
  "home_score (recompute orig refA refH sport s prev) =
     snd (recomputeScores orig s sport (nullish refA (away_score prev))
            (nullish refH (home_score prev)))"
proof (cases "\<not> awayOffChanged orig s \<and> \<not> awayDefChanged orig s
           \<and> \<not> homeOffChanged orig s \<and> \<not> homeDefChanged orig s")
  case True
  then show ?thesis
    unfolding recompute_def by (auto simp: Let_def recomputeScores_unchanged)
next
  case False
  then show ?thesis
    unfolding recompute_def by (auto simp: Let_def recomputedResult_scores)
qed

text \<open>
  Claim C2. With the original scores \<open>a\<close> and \<open>h\<close> in the refs and the away-offense
  grade off its baseline grade, the away score after the effect is \<open>a\<close> plus the delta
  of \<open>currentAwayOffRating - currentHomeDefRating + hfa\<close> against
  \<open>awayOffensiveRating - homeDefensiveRating + hfa\<close>, passed through \<open>roundScore\<close> and
  floored at 0 (flooring before or after the rounding gives the same value). The current
  ratings are the projections of the away-offense and home-defense sliders, rounded to
  hundredths, and \<open>hfa\<close> is the home field advantage, 1.25 when that is 0. The score
  held before does not enter. When neither the home-offense nor the away-defense grade
  has moved, the home score is \<open>h\<close>; the away score is never negative, and neither is
  the home score, when one of its two sliders has moved or when \<open>h\<close> is not negative.
\<close>

theorem away_offense_delta_rule:
  assumes "awayOff s \<noteq> awayOffensiveNumericGrade orig"
  shows
    "away_score (recompute orig (Some a) (Some h) sport s prev) =
       max 0 (roundScore
         (a + ((Math_round (((awayOff s - awayOffensiveNumericGrade orig) * offensiveRange orig / 39
                              + awayOffensiveRating orig) * 100) / 100
                - Math_round (((homeDef s - homeDefensiveNumericGrade orig) * defensiveRange orig / 39
                              + homeDefensiveRating orig) * 100) / 100
                + (if homeFieldAdvantage orig = 0 then 1.25 else homeFieldAdvantage orig))
               - (awayOffensiveRating orig - homeDefensiveRating orig
                  + (if homeFieldAdvantage orig = 0 then 1.25 else homeFieldAdvantage orig))))
         (sportCode sport))
     \<and> away_score (recompute orig (Some a) (Some h) sport s prev) =
       roundScore
         (max 0 (a + ((Math_round (((awayOff s - awayOffensiveNumericGrade orig)
                                      * offensiveRange orig / 39
                              + awayOffensiveRating orig) * 100) / 100
                - Math_round (((homeDef s - homeDefensiveNumericGrade orig) * defensiveRange orig / 39
                              + homeDefensiveRating orig) * 100) / 100
                + (if homeFieldAdvantage orig = 0 then 1.25 else homeFieldAdvantage orig))
               - (awayOffensiveRating orig - homeDefensiveRating orig
                  + (if homeFieldAdvantage orig = 0 then 1.25 else homeFieldAdvantage orig)))))
         (sportCode sport)
     \<and> (homeOff s = homeOffensiveNumericGrade orig \<and> awayDef s = awayDefensiveNumericGrade orig
          \<longrightarrow> home_score (recompute orig (Some a) (Some h) sport s prev) = h)
     \<and> 0 \<le> away_score (recompute orig (Some a) (Some h) sport s prev)
     \<and> (homeOff s \<noteq> homeOffensiveNumericGrade orig \<or> awayDef s \<noteq> awayDefensiveNumericGrade orig
          \<longrightarrow> 0 \<le> home_score (recompute orig (Some a) (Some h) sport s prev))
     \<and> (0 \<le> h \<longrightarrow> 0 \<le> home_score (recompute orig (Some a) (Some h) sport s prev))"
proof -
  define x where "x = a + ((Math_round (((awayOff s - awayOffensiveNumericGrade orig)
                                      * offensiveRange orig / 39
                              + awayOffensiveRating orig) * 100) / 100
                - Math_round (((homeDef s - homeDefensiveNumericGrade orig) * defensiveRange orig / 39
                              + homeDefensiveRating orig) * 100) / 100
                + (if homeFieldAdvantage orig = 0 then 1.25 else homeFieldAdvantage orig))
               - (awayOffensiveRating orig - homeDefensiveRating orig
                  + (if homeFieldAdvantage orig = 0 then 1.25 else homeFieldAdvantage orig)))"
  have ch: "awayOffChanged orig s" using assms by (simp add: awayOffChanged_def)
  have ex: "a + (roundedAwayOff orig s - roundedHomeDef orig s + hfa orig
                   - calculatedOriginalAway orig) = x"
    unfolding x_def
    by (simp add: roundedAwayOff_def roundedHomeDef_def currentAwayOff_def currentHomeDef_def
          newRange_def hfa_def orElse_def calculatedOriginalAway_def)
  have av: "away_score (recompute orig (Some a) (Some h) sport s prev)
      = max 0 (roundScore x (sportCode sport))"
    using ch by (simp add: recompute_away_score recomputeScores_fst nullish_def ex)
  have hv: "homeOff s = homeOffensiveNumericGrade orig \<and> awayDef s = awayDefensiveNumericGrade orig
          \<longrightarrow> home_score (recompute orig (Some a) (Some h) sport s prev) = h"
    by (simp add: recompute_home_score recomputeScores_snd homeOffChanged_def awayDefChanged_def
          nullish_def)
  have hc: "homeOff s \<noteq> homeOffensiveNumericGrade orig \<or> awayDef s \<noteq> awayDefensiveNumericGrade orig
          \<longrightarrow> 0 \<le> home_score (recompute orig (Some a) (Some h) sport s prev)"
    by (auto simp: recompute_home_score recomputeScores_snd homeOffChanged_def awayDefChanged_def)
  have hn: "0 \<le> h \<longrightarrow> 0 \<le> home_score (recompute orig (Some a) (Some h) sport s prev)"
    by (simp add: recompute_home_score recomputeScores_snd nullish_def)
  have an: "0 \<le> away_score (recompute orig (Some a) (Some h) sport s prev)"
    unfolding av by simp
  have av': "away_score (recompute orig (Some a) (Some h) sport s prev)
      = roundScore (max 0 x) (sportCode sport)"
    unfolding av by (rule roundScore_floor_commute)
  show ?thesis
    unfolding x_def [symmetric]
    apply (intro conjI)
    by (rule av av' hv an hc hn)+
qed

text \<open>
  The witness moves the away-offense slider to 90 with the home-defense slider at 70
  (baseline 78) and a held result of 22 to 31: the away score is
  \<open>roundScore (17 + 9.23) = 26\<close>, from the ref and both sliders, and the home score is
  the ref, 24.
\<close>

theorem away_offense_delta_rule_witness:
  "awayOff (scenarioBaseline\<lparr>awayOff := 90, homeDef := 70\<rparr>)
      \<noteq> awayOffensiveNumericGrade scenarioRatings
   \<and> homeOff (scenarioBaseline\<lparr>awayOff := 90, homeDef := 70\<rparr>)
      = homeOffensiveNumericGrade scenarioRatings
   \<and> awayDef (scenarioBaseline\<lparr>awayOff := 90, homeDef := 70\<rparr>)
      = awayDefensiveNumericGrade scenarioRatings
   \<and> away_score heldResult = 22 \<and> home_score heldResult = 31
   \<and> away_score (recompute scenarioRatings (Some 17) (Some 24) NFL
        (scenarioBaseline\<lparr>awayOff := 90, homeDef := 70\<rparr>) heldResult) = 26
   \<and> home_score (recompute scenarioRatings (Some 17) (Some 24) NFL
        (scenarioBaseline\<lparr>awayOff := 90, homeDef := 70\<rparr>) heldResult) = 24"
proof -
  let ?s = "scenarioBaseline\<lparr>awayOff := 90, homeDef := 70\<rparr>"
  have ne: "awayOff ?s \<noteq> awayOffensiveNumericGrade scenarioRatings"
    by (simp add: scenarioRatings_def scenarioBaseline_def)
  have g: "awayOff ?s = 90" "homeDef ?s = 70" "homeOff ?s = 82" "awayDef ?s = 75"
    "awayOffensiveNumericGrade scenarioRatings = 80" "awayOffensiveRating scenarioRatings = 10"
    "homeDefensiveNumericGrade scenarioRatings = 78" "homeDefensiveRating scenarioRatings = 8"
    "homeOffensiveNumericGrade scenarioRatings = 82"
    "awayDefensiveNumericGrade scenarioRatings = 75"
    "offensiveRange scenarioRatings = 20" "defensiveRange scenarioRatings = 20"
    "homeFieldAdvantage scenarioRatings = 1.25"
    by (simp_all add: scenarioRatings_def scenarioBaseline_def)
  have held: "away_score heldResult = 22" "home_score heldResult = 31"
    by (simp_all add: heldResult_def)
  have m: "Math_round (((90 - 80) * 20 / 39 + 10) * 100) = 1513"
    "Math_round (((70 - 78) * 20 / 39 + 8) * 100) = 390"
    by (simp_all add: Math_round_def)
  have r: "roundScore (2623 / 100) ''nfl'' = 26"
    by (simp add: roundScore_def Math_round_def)
  have "away_score (recompute scenarioRatings (Some 17) (Some 24) NFL ?s heldResult) = 26
      \<and> home_score (recompute scenarioRatings (Some 17) (Some 24) NFL ?s heldResult) = 24"
    using away_offense_delta_rule [OF ne, of 17 24 NFL heldResult]
    unfolding g m by (simp add: r)
  then show ?thesis using ne held g by simp
qed

text \<open>
  Claim C10. When both the home-offense grade and the away-defense grade differ from
  their baselines, the home-offense block and the away-defense block write the same
  home score whatever scores they start from, so applying both in either order, or
  either alone, yields the same pair; the home score after the effect is that value,
  the baseline home score plus the delta of
  \<open>roundedHomeOff - roundedAwayDef + hfa\<close> against the same formula at the baseline.
\<close>

theorem overlapping_home_rules_agree:
  assumes "homeOff s \<noteq> homeOffensiveNumericGrade orig"
    and "awayDef s \<noteq> awayDefensiveNumericGrade orig"
  shows
    "snd (homeOffRule orig s sport oh scores) = snd (awayDefRule orig s sport oh scores')
     \<and> homeOffRule orig s sport oh scores = awayDefRule orig s sport oh scores
     \<and> awayDefRule orig s sport oh (homeOffRule orig s sport oh scores)
         = homeOffRule orig s sport oh (awayDefRule orig s sport oh scores)
     \<and> awayDefRule orig s sport oh (homeOffRule orig s sport oh scores)
         = homeOffRule orig s sport oh scores
     \<and> homeOffRule orig s sport oh (awayDefRule orig s sport oh scores)
         = awayDefRule orig s sport oh scores
     \<and> home_score (recompute orig refA refH sport s prev)
         = snd (homeOffRule orig s sport (nullish refH (home_score prev)) scores)
     \<and> home_score (recompute orig refA refH sport s prev)
         = max 0 (roundScore
             (nullish refH (home_score prev)
                + ((roundedHomeOff orig s - roundedAwayDef orig s + hfa orig)
                   - (homeOffensiveRating orig - awayDefensiveRating orig + hfa orig)))
             (sportCode sport))"
proof -
  obtain a h where sc: "scores = (a, h)" by (cases scores)
  obtain a' h' where sc': "scores' = (a', h')" by (cases scores')
  have ch: "homeOffChanged orig s" "awayDefChanged orig s"
    using assms by (simp_all add: homeOffChanged_def awayDefChanged_def)
  have ho: "\<And>x y. homeOffRule orig s sport oh (x, y) =
      (x, max 0 (roundScore (oh + (roundedHomeOff orig s - roundedAwayDef orig s + hfa orig
                                     - calculatedOriginalHome orig)) (sportCode sport)))"
    using assms ch by (simp add: homeOffRule_def Let_def)
  have ad: "\<And>x y. awayDefRule orig s sport oh (x, y) =
      (x, max 0 (roundScore (oh + (roundedHomeOff orig s - roundedAwayDef orig s + hfa orig
                                     - calculatedOriginalHome orig)) (sportCode sport)))"
    using assms ch by (simp add: awayDefRule_def Let_def)
  have hs: "home_score (recompute orig refA refH sport s prev)
         = max 0 (roundScore
             (nullish refH (home_score prev)
                + (roundedHomeOff orig s - roundedAwayDef orig s + hfa orig
                   - calculatedOriginalHome orig))
             (sportCode sport))"
    using ch by (simp add: recompute_home_score recomputeScores_snd)
  have ho': "\<And>x y. homeOffRule orig s sport (nullish refH (home_score prev)) (x, y) =
      (x, max 0 (roundScore (nullish refH (home_score prev)
            + (roundedHomeOff orig s - roundedAwayDef orig s + hfa orig
                 - calculatedOriginalHome orig)) (sportCode sport)))"
    using assms ch by (simp add: homeOffRule_def Let_def)
  show ?thesis
    unfolding sc sc' by (simp add: ho ad ho' hs calculatedOriginalHome_def)
qed

theorem overlapping_home_rules_agree_witness:
  "homeOff (scenarioBaseline\<lparr>homeOff := 90, awayDef := 70\<rparr>)
      \<noteq> homeOffensiveNumericGrade scenarioRatings
   \<and> awayDef (scenarioBaseline\<lparr>homeOff := 90, awayDef := 70\<rparr>)
      \<noteq> awayDefensiveNumericGrade scenarioRatings
   \<and> homeOffRule scenarioRatings (scenarioBaseline\<lparr>homeOff := 90, awayDef := 70\<rparr>) NFL 24 (17, 24)
      = awayDefRule scenarioRatings (scenarioBaseline\<lparr>homeOff := 90, awayDef := 70\<rparr>) NFL 24 (17, 24)
   \<and> home_score (recompute scenarioRatings (Some 17) (Some 24) NFL
        (scenarioBaseline\<lparr>homeOff := 90, awayDef := 70\<rparr>) scenarioResult) = 31"
proof -
  let ?s = "scenarioBaseline\<lparr>homeOff := 90, awayDef := 70\<rparr>"
  have ne: "homeOff ?s \<noteq> homeOffensiveNumericGrade scenarioRatings"
    "awayDef ?s \<noteq> awayDefensiveNumericGrade scenarioRatings"
    by (simp_all add: scenarioRatings_def scenarioBaseline_def)
  have r: "roundedHomeOff scenarioRatings ?s = 15.1" "roundedAwayDef scenarioRatings ?s = 2.44"
    by (simp_all add: roundedHomeOff_def roundedAwayDef_def currentHomeOff_def currentAwayDef_def
          scenarioRatings_def scenarioBaseline_def newRange_def Math_round_def)
  have g: "homeOffensiveRating scenarioRatings = 11" "awayDefensiveRating scenarioRatings = 5"
    by (simp_all add: scenarioRatings_def)
  have rs: "roundScore (1533 / 50) ''nfl'' = 31"
    by (simp add: roundScore_def Math_round_def)
  show ?thesis
    using ne overlapping_home_rules_agree [OF ne, of NFL 24 "(17, 24)" "(17, 24)"
        "Some 17" "Some 24" scenarioResult]
    by (simp add: r g rs nullish_def)
qed

subsection \<open>The guard of the effect\<close>

text \<open>
  The effect leaves both states alone unless the original ratings, a result and both
  teams are present; when they are, the states after it are the ones of the body.
\<close>

lemma recomputeEffect_guard:
  "recomputeEffect (Some ratings) (Some result) (Some a) (Some h) sport refA refH s refs
     = (Some (recompute ratings refA refH sport s result), recomputeRefs ratings s refs)"
  "recomputeEffect None simulationResult awayTeam homeTeam sport refA refH s refs
     = (simulationResult, refs)"
  "recomputeEffect originalRatings None awayTeam homeTeam sport refA refH s refs = (None, refs)"
  "recomputeEffect originalRatings simulationResult None homeTeam sport refA refH s refs
     = (simulationResult, refs)"
  "recomputeEffect originalRatings simulationResult awayTeam None sport refA refH s refs
     = (simulationResult, refs)"
  by (simp_all add: recomputeEffect_def split: option.split)

subsection \<open>Sliders at their baseline\<close>

lemma recompute_away_at_baseline:
  "awayOff s = awayOffensiveNumericGrade orig \<Longrightarrow> homeDef s = homeDefensiveNumericGrade orig
     \<Longrightarrow> away_score (recompute orig refA refH sport s prev) = nullish refA (away_score prev)"
  by (simp add: recompute_away_score recomputeScores_fst awayOffChanged_def homeDefChanged_def)

lemma recompute_home_at_baseline:
  "homeOff s = homeOffensiveNumericGrade orig \<Longrightarrow> awayDef s = awayDefensiveNumericGrade orig
     \<Longrightarrow> home_score (recompute orig refA refH sport s prev) = nullish refH (home_score prev)"
  by (simp add: recompute_home_score recomputeScores_snd homeOffChanged_def awayDefChanged_def)

lemma scenario_moved_away_score:
  "away_score (recompute scenarioRatings (Some 17) (Some 24) NFL
     (scenarioBaseline\<lparr>awayOff := 90\<rparr>) scenarioResult) = 22"
proof -
  have r: "roundedAwayOff scenarioRatings (scenarioBaseline\<lparr>awayOff := 90\<rparr>) = 15.13"
    "roundedHomeDef scenarioRatings (scenarioBaseline\<lparr>awayOff := 90\<rparr>) = 8"
    by (simp_all add: roundedAwayOff_def roundedHomeDef_def currentAwayOff_def
          currentHomeDef_def scenarioRatings_def scenarioBaseline_def newRange_def Math_round_def)
  have c: "calculatedOriginalAway scenarioRatings = 3.25 + (hfa scenarioRatings - 1.25)"
    by (simp add: calculatedOriginalAway_def scenarioRatings_def)
  have ch: "awayOffChanged scenarioRatings (scenarioBaseline\<lparr>awayOff := 90\<rparr>)"
    by (simp add: awayOffChanged_def scenarioRatings_def scenarioBaseline_def)
  have rs: "roundScore (2213 / 100) ''nfl'' = 22"
    by (simp add: roundScore_def Math_round_def)
  show ?thesis
    by (simp add: recompute_away_score recomputeScores_fst ch r c rs nullish_def)
qed

text \<open>
  Claim C7, as amended. With the original scores in the refs, moving a slider to any
  grade and then back to exactly its baseline grade leaves, after the second run of the
  effect, the exact baseline score on the side that slider acts on, whatever the first
  run produced, provided the other slider of that side stands at its baseline; the side
  is the away score for the away-offense and home-defense sliders and the home score for
  the home-offense and away-defense sliders.
\<close>

theorem reset_snap_back:
  "(homeDef s = homeDefensiveNumericGrade orig \<longrightarrow>
      away_score (recompute orig (Some a) (Some h) sport
          (s\<lparr>awayOff := awayOffensiveNumericGrade orig\<rparr>)
          (recompute orig (Some a) (Some h) sport (s\<lparr>awayOff := g\<rparr>) prev)) = a)
   \<and> (awayOff s = awayOffensiveNumericGrade orig \<longrightarrow>
      away_score (recompute orig (Some a) (Some h) sport
          (s\<lparr>homeDef := homeDefensiveNumericGrade orig\<rparr>)
          (recompute orig (Some a) (Some h) sport (s\<lparr>homeDef := g\<rparr>) prev)) = a)
   \<and> (awayDef s = awayDefensiveNumericGrade orig \<longrightarrow>
      home_score (recompute orig (Some a) (Some h) sport
          (s\<lparr>homeOff := homeOffensiveNumericGrade orig\<rparr>)
          (recompute orig (Some a) (Some h) sport (s\<lparr>homeOff := g\<rparr>) prev)) = h)
   \<and> (homeOff s = homeOffensiveNumericGrade orig \<longrightarrow>
      home_score (recompute orig (Some a) (Some h) sport
          (s\<lparr>awayDef := awayDefensiveNumericGrade orig\<rparr>)
          (recompute orig (Some a) (Some h) sport (s\<lparr>awayDef := g\<rparr>) prev)) = h)"
  by (simp add: recompute_away_at_baseline recompute_home_at_baseline nullish_def)

theorem reset_snap_back_witness:
  "homeDef scenarioBaseline = homeDefensiveNumericGrade scenarioRatings
   \<and> away_score (recompute scenarioRatings (Some 17) (Some 24) NFL
        (scenarioBaseline\<lparr>awayOff := 90\<rparr>) scenarioResult) = 22
   \<and> away_score (recompute scenarioRatings (Some 17) (Some 24) NFL
        (scenarioBaseline\<lparr>awayOff := awayOffensiveNumericGrade scenarioRatings\<rparr>)
        (recompute scenarioRatings (Some 17) (Some 24) NFL
           (scenarioBaseline\<lparr>awayOff := 90\<rparr>) scenarioResult)) = 17"
proof -
  have b: "homeDef scenarioBaseline = homeDefensiveNumericGrade scenarioRatings"
    by (simp add: scenarioRatings_def scenarioBaseline_def)
  show ?thesis
    using b scenario_moved_away_score
      reset_snap_back [of scenarioBaseline scenarioRatings 17 24 NFL 90 scenarioResult]
    by simp
qed

text \<open>
  Claim C7 as stated fails while the other slider of the side is off its baseline: with
  the home-defense slider at 70 (baseline 78), the away-offense slider moved to 90 and
  back to its baseline 80 leaves the away score at \<open>roundScore (17 + 4.1) = 21\<close>, the
  value of the home-defense rule, and not at the baseline 17.
\<close>

theorem reset_snap_back_counterexample:
  "awayOff (scenarioBaseline\<lparr>homeDef := 70\<rparr>) = awayOffensiveNumericGrade scenarioRatings
   \<and> away_score (recompute scenarioRatings (Some 17) (Some 24) NFL
        (scenarioBaseline\<lparr>homeDef := 70, awayOff := 90\<rparr>) scenarioResult) = 26
   \<and> away_score (recompute scenarioRatings (Some 17) (Some 24) NFL
        (scenarioBaseline\<lparr>homeDef := 70\<rparr>)
        (recompute scenarioRatings (Some 17) (Some 24) NFL
           (scenarioBaseline\<lparr>homeDef := 70, awayOff := 90\<rparr>) scenarioResult)) = 21"
proof -
  let ?reset = "scenarioBaseline\<lparr>homeDef := 70\<rparr>"
  let ?moved = "scenarioBaseline\<lparr>homeDef := 70, awayOff := 90\<rparr>"
  have b: "awayOff ?reset = awayOffensiveNumericGrade scenarioRatings"
    by (simp add: scenarioRatings_def scenarioBaseline_def)
  have r: "roundedAwayOff scenarioRatings ?reset = 10" "roundedHomeDef scenarioRatings ?reset = 3.9"
    "roundedAwayOff scenarioRatings ?moved = 15.13" "roundedHomeDef scenarioRatings ?moved = 3.9"
    by (simp_all add: roundedAwayOff_def roundedHomeDef_def currentAwayOff_def
          currentHomeDef_def scenarioRatings_def scenarioBaseline_def newRange_def Math_round_def)
  have c: "calculatedOriginalAway scenarioRatings = 3.25 + (hfa scenarioRatings - 1.25)"
    by (simp add: calculatedOriginalAway_def scenarioRatings_def)
  have ch: "homeDefChanged scenarioRatings ?reset" "homeDefChanged scenarioRatings ?moved"
    by (simp_all add: homeDefChanged_def scenarioRatings_def scenarioBaseline_def)
  have rs: "roundScore (211 / 10) ''nfl'' = 21" "roundScore (2623 / 100) ''nfl'' = 26"
    by (simp_all add: roundScore_def Math_round_def)
  have moved: "away_score (recompute scenarioRatings (Some 17) (Some 24) NFL ?moved
      scenarioResult) = 26"
    by (simp add: recompute_away_score recomputeScores_fst ch r c rs nullish_def)
  have reset: "away_score (recompute scenarioRatings (Some 17) (Some 24) NFL ?reset
      (recompute scenarioRatings (Some 17) (Some 24) NFL ?moved scenarioResult)) = 21"
    by (simp add: recompute_away_score recomputeScores_fst ch r c rs nullish_def)
  show ?thesis using b moved reset by simp
qed

text \<open>
  Claim C1, as amended. When all four grades equal their baseline grades, the state
  after the effect holds exactly the baseline away and home scores. Where the result
  held before had other scores, a new object is published whose spread is the home
  score minus the away score and whose total is their sum, the probabilities being
  the ones held before; where it had the baseline scores already, the state is left
  as it was, spread and total included.
\<close>

theorem round_trip_identity:
  assumes "awayOff s = awayOffensiveNumericGrade orig"
    and "awayDef s = awayDefensiveNumericGrade orig"
    and "homeOff s = homeOffensiveNumericGrade orig"
    and "homeDef s = homeDefensiveNumericGrade orig"
  shows
    "away_score (recompute orig refA refH sport s prev) = nullish refA (away_score prev)
     \<and> home_score (recompute orig refA refH sport s prev) = nullish refH (home_score prev)
     \<and> (away_score prev \<noteq> nullish refA (away_score prev)
          \<or> home_score prev \<noteq> nullish refH (home_score prev) \<longrightarrow>
        spread (recompute orig refA refH sport s prev)
          = nullish refH (home_score prev) - nullish refA (away_score prev)
        \<and> total (recompute orig refA refH sport s prev)
          = nullish refA (away_score prev) + nullish refH (home_score prev)
        \<and> away_win_probability (recompute orig refA refH sport s prev)
          = away_win_probability prev
        \<and> home_win_probability (recompute orig refA refH sport s prev)
          = home_win_probability prev)
     \<and> (away_score prev = nullish refA (away_score prev)
          \<and> home_score prev = nullish refH (home_score prev) \<longrightarrow>
        recompute orig refA refH sport s prev = prev)"
proof -
  have un: "\<not> awayOffChanged orig s" "\<not> awayDefChanged orig s"
    "\<not> homeOffChanged orig s" "\<not> homeDefChanged orig s"
    using assms
    by (simp_all add: awayOffChanged_def awayDefChanged_def homeOffChanged_def homeDefChanged_def)
  have sc: "away_score (recompute orig refA refH sport s prev) = nullish refA (away_score prev)"
    "home_score (recompute orig refA refH sport s prev) = nullish refH (home_score prev)"
    using assms by (simp_all add: recompute_away_at_baseline recompute_home_at_baseline)
  have pub: "away_score prev \<noteq> nullish refA (away_score prev)
          \<or> home_score prev \<noteq> nullish refH (home_score prev) \<Longrightarrow>
        recompute orig refA refH sport s prev =
          \<lparr>away_score = nullish refA (away_score prev),
           home_score = nullish refH (home_score prev),
           spread = nullish refH (home_score prev) - nullish refA (away_score prev),
           total = nullish refA (away_score prev) + nullish refH (home_score prev),
           away_win_probability = away_win_probability prev,
           home_win_probability = home_win_probability prev\<rparr>"
    using un unfolding recompute_def by (simp add: Let_def)
  have keep: "away_score prev = nullish refA (away_score prev)
          \<and> home_score prev = nullish refH (home_score prev) \<Longrightarrow>
        recompute orig refA refH sport s prev = prev"
    using un unfolding recompute_def by (simp add: Let_def)
  show ?thesis
    using sc pub keep by auto
qed

lemma scenarioBaseline_grades:
  "awayOff scenarioBaseline = awayOffensiveNumericGrade scenarioRatings"
  "awayDef scenarioBaseline = awayDefensiveNumericGrade scenarioRatings"
  "homeOff scenarioBaseline = homeOffensiveNumericGrade scenarioRatings"
  "homeDef scenarioBaseline = homeDefensiveNumericGrade scenarioRatings"
  by (simp_all add: scenarioRatings_def scenarioBaseline_def)

theorem round_trip_identity_witness:
  "awayOff scenarioBaseline = awayOffensiveNumericGrade scenarioRatings
   \<and> awayDef scenarioBaseline = awayDefensiveNumericGrade scenarioRatings
   \<and> homeOff scenarioBaseline = homeOffensiveNumericGrade scenarioRatings
   \<and> homeDef scenarioBaseline = homeDefensiveNumericGrade scenarioRatings
   \<and> recompute scenarioRatings (Some 17) (Some 24) NFL scenarioBaseline
        (scenarioResult\<lparr>away_score := 22, spread := 2, total := 46\<rparr>)
      = \<lparr>away_score = 17, home_score = 24, spread = 7, total = 41,
         away_win_probability = 0.3, home_win_probability = 0.7\<rparr>
   \<and> recompute scenarioRatings (Some 17) (Some 24) NFL scenarioBaseline scenarioResult
      = scenarioResult"
proof -
  have eq: "\<And>r :: SimulationResult. r =
      \<lparr>away_score = away_score r, home_score = home_score r, spread = spread r,
       total = total r, away_win_probability = away_win_probability r,
       home_win_probability = home_win_probability r\<rparr>"
    by simp
  have one: "recompute scenarioRatings (Some 17) (Some 24) NFL scenarioBaseline
        (scenarioResult\<lparr>away_score := 22, spread := 2, total := 46\<rparr>)
      = \<lparr>away_score = 17, home_score = 24, spread = 7, total = 41,
         away_win_probability = 0.3, home_win_probability = 0.7\<rparr>"
    apply (subst eq)
    using round_trip_identity [OF scenarioBaseline_grades, of "Some 17" "Some 24" NFL
        "scenarioResult\<lparr>away_score := 22, spread := 2, total := 46\<rparr>"]
    by (simp add: nullish_def scenarioResult_def)
  have two: "recompute scenarioRatings (Some 17) (Some 24) NFL scenarioBaseline scenarioResult
      = scenarioResult"
    using round_trip_identity [OF scenarioBaseline_grades, of "Some 17" "Some 24" NFL
        scenarioResult]
    by (simp add: nullish_def scenarioResult_def)
  show ?thesis using one two scenarioBaseline_grades by simp
qed

text \<open>
  Claim C1 as stated fails where nothing has been adjusted yet: the result held is the
  one built from the response, whose spread and total are the \<open>pointSpread\<close> and
  \<open>totalPoints\<close> of the outcome (0 when absent), and the effect leaves it as it is.
\<close>

theorem round_trip_identity_counterexample:
  "away_score (recompute scenarioRatings (Some 17) (Some 24) NFL scenarioBaseline
      (transformed (Some scenarioAwayData) (Some scenarioHomeData) scenarioOutcome)) = 17
   \<and> home_score (recompute scenarioRatings (Some 17) (Some 24) NFL scenarioBaseline
      (transformed (Some scenarioAwayData) (Some scenarioHomeData) scenarioOutcome)) = 24
   \<and> spread (recompute scenarioRatings (Some 17) (Some 24) NFL scenarioBaseline
      (transformed (Some scenarioAwayData) (Some scenarioHomeData) scenarioOutcome)) = 0
   \<and> total (recompute scenarioRatings (Some 17) (Some 24) NFL scenarioBaseline
      (transformed (Some scenarioAwayData) (Some scenarioHomeData) scenarioOutcome)) = 0"
proof -
  have t: "transformed (Some scenarioAwayData) (Some scenarioHomeData) scenarioOutcome
      = \<lparr>away_score = 17, home_score = 24, spread = 0, total = 0,
         away_win_probability = 30 / 100, home_win_probability = 70 / 100\<rparr>"
    by (simp add: transformed_def fieldOr_def numberOr_def orElse_def scenarioAwayData_def
          scenarioHomeData_def scenarioOutcome_def)
  have un: "\<not> awayOffChanged scenarioRatings scenarioBaseline"
    "\<not> awayDefChanged scenarioRatings scenarioBaseline"
    "\<not> homeOffChanged scenarioRatings scenarioBaseline"
    "\<not> homeDefChanged scenarioRatings scenarioBaseline"
    by (simp_all add: awayOffChanged_def awayDefChanged_def homeOffChanged_def
          homeDefChanged_def scenarioBaseline_grades)
  show ?thesis
    unfolding t recompute_def using un by (simp add: Let_def nullish_def)
qed

subsection \<open>Rating projection\<close>

lemma round2_error: "\<bar>Math_round (x * 100) / 100 - x\<bar> \<le> 1 / 200"
  using Math_round_lower [of "x * 100"] Math_round_upper [of "x * 100"] by linarith

text \<open>
  Claim C3. Each current rating is
  \<open>(grade - baselineGrade) * scaleRange / 39 + baselineRating\<close>, with the offensive range
  for the two offenses and the defensive range for the two defenses, so one more grade
  point moves the unrounded rating by \<open>scaleRange / 39\<close>; the rating used is that value
  rounded to two decimal places: \<open>Math.round\<close> of a hundred times it, over a hundred,
  a whole number of hundredths within half a hundredth of it. Past the short circuit the
  refs hold the four rounded ratings.
\<close>

theorem rating_projection:
  "currentAwayOff orig s
     = (awayOff s - awayOffensiveNumericGrade orig) * offensiveRange orig / 39
         + awayOffensiveRating orig
   \<and> currentAwayDef orig s
     = (awayDef s - awayDefensiveNumericGrade orig) * defensiveRange orig / 39
         + awayDefensiveRating orig
   \<and> currentHomeOff orig s
     = (homeOff s - homeOffensiveNumericGrade orig) * offensiveRange orig / 39
         + homeOffensiveRating orig
   \<and> currentHomeDef orig s
     = (homeDef s - homeDefensiveNumericGrade orig) * defensiveRange orig / 39
         + homeDefensiveRating orig
   \<and> currentAwayOff orig (s\<lparr>awayOff := awayOff s + 1\<rparr>) - currentAwayOff orig s
     = offensiveRange orig / 39
   \<and> currentAwayDef orig (s\<lparr>awayDef := awayDef s + 1\<rparr>) - currentAwayDef orig s
     = defensiveRange orig / 39
   \<and> currentHomeOff orig (s\<lparr>homeOff := homeOff s + 1\<rparr>) - currentHomeOff orig s
     = offensiveRange orig / 39
   \<and> currentHomeDef orig (s\<lparr>homeDef := homeDef s + 1\<rparr>) - currentHomeDef orig s
     = defensiveRange orig / 39
   \<and> roundedAwayOff orig s = of_int \<lfloor>currentAwayOff orig s * 100 + 1 / 2\<rfloor> / 100
   \<and> roundedAwayDef orig s = of_int \<lfloor>currentAwayDef orig s * 100 + 1 / 2\<rfloor> / 100
   \<and> roundedHomeOff orig s = of_int \<lfloor>currentHomeOff orig s * 100 + 1 / 2\<rfloor> / 100
   \<and> roundedHomeDef orig s = of_int \<lfloor>currentHomeDef orig s * 100 + 1 / 2\<rfloor> / 100
   \<and> \<bar>roundedAwayOff orig s - currentAwayOff orig s\<bar> \<le> 1 / 200
   \<and> \<bar>roundedAwayDef orig s - currentAwayDef orig s\<bar> \<le> 1 / 200
   \<and> \<bar>roundedHomeOff orig s - currentHomeOff orig s\<bar> \<le> 1 / 200
   \<and> \<bar>roundedHomeDef orig s - currentHomeDef orig s\<bar> \<le> 1 / 200
   \<and> (awayOff s \<noteq> awayOffensiveNumericGrade orig \<or> awayDef s \<noteq> awayDefensiveNumericGrade orig
        \<or> homeOff s \<noteq> homeOffensiveNumericGrade orig
        \<or> homeDef s \<noteq> homeDefensiveNumericGrade orig \<longrightarrow>
      recomputeRefs orig s refs =
        \<lparr>currentAwayOffensiveRatingRef = Some (roundedAwayOff orig s),
         currentAwayDefensiveRatingRef = Some (roundedAwayDef orig s),
         currentHomeOffensiveRatingRef = Some (roundedHomeOff orig s),
         currentHomeDefensiveRatingRef = Some (roundedHomeDef orig s)\<rparr>)"
proof -
  have cur: "currentAwayOff orig s
     = (awayOff s - awayOffensiveNumericGrade orig) * offensiveRange orig / 39
         + awayOffensiveRating orig"
    "currentAwayDef orig s
     = (awayDef s - awayDefensiveNumericGrade orig) * defensiveRange orig / 39
         + awayDefensiveRating orig"
    "currentHomeOff orig s
     = (homeOff s - homeOffensiveNumericGrade orig) * offensiveRange orig / 39
         + homeOffensiveRating orig"
    "currentHomeDef orig s
     = (homeDef s - homeDefensiveNumericGrade orig) * defensiveRange orig / 39
         + homeDefensiveRating orig"
    by (simp_all add: currentAwayOff_def currentAwayDef_def currentHomeOff_def
          currentHomeDef_def newRange_def)
  have step: "currentAwayOff orig (s\<lparr>awayOff := awayOff s + 1\<rparr>) - currentAwayOff orig s
     = offensiveRange orig / 39"
    "currentAwayDef orig (s\<lparr>awayDef := awayDef s + 1\<rparr>) - currentAwayDef orig s
     = defensiveRange orig / 39"
    "currentHomeOff orig (s\<lparr>homeOff := homeOff s + 1\<rparr>) - currentHomeOff orig s
     = offensiveRange orig / 39"
    "currentHomeDef orig (s\<lparr>homeDef := homeDef s + 1\<rparr>) - currentHomeDef orig s
     = defensiveRange orig / 39"
    by (simp_all add: currentAwayOff_def currentAwayDef_def currentHomeOff_def
          currentHomeDef_def newRange_def field_simps)
  have rnd: "roundedAwayOff orig s = of_int \<lfloor>currentAwayOff orig s * 100 + 1 / 2\<rfloor> / 100"
    "roundedAwayDef orig s = of_int \<lfloor>currentAwayDef orig s * 100 + 1 / 2\<rfloor> / 100"
    "roundedHomeOff orig s = of_int \<lfloor>currentHomeOff orig s * 100 + 1 / 2\<rfloor> / 100"
    "roundedHomeDef orig s = of_int \<lfloor>currentHomeDef orig s * 100 + 1 / 2\<rfloor> / 100"
    by (simp_all add: roundedAwayOff_def roundedAwayDef_def roundedHomeOff_def
          roundedHomeDef_def Math_round_def)
  have err: "\<bar>roundedAwayOff orig s - currentAwayOff orig s\<bar> \<le> 1 / 200"
    "\<bar>roundedAwayDef orig s - currentAwayDef orig s\<bar> \<le> 1 / 200"
    "\<bar>roundedHomeOff orig s - currentHomeOff orig s\<bar> \<le> 1 / 200"
    "\<bar>roundedHomeDef orig s - currentHomeDef orig s\<bar> \<le> 1 / 200"
    unfolding roundedAwayOff_def roundedAwayDef_def roundedHomeOff_def roundedHomeDef_def
    by (rule round2_error)+
  have refs: "awayOff s \<noteq> awayOffensiveNumericGrade orig \<or> awayDef s \<noteq> awayDefensiveNumericGrade orig
        \<or> homeOff s \<noteq> homeOffensiveNumericGrade orig
        \<or> homeDef s \<noteq> homeDefensiveNumericGrade orig \<longrightarrow>
      recomputeRefs orig s refs =
        \<lparr>currentAwayOffensiveRatingRef = Some (roundedAwayOff orig s),
         currentAwayDefensiveRatingRef = Some (roundedAwayDef orig s),
         currentHomeOffensiveRatingRef = Some (roundedHomeOff orig s),
         currentHomeDefensiveRatingRef = Some (roundedHomeDef orig s)\<rparr>"
    by (auto simp: recomputeRefs_def awayOffChanged_def awayDefChanged_def homeOffChanged_def
          homeDefChanged_def)
  show ?thesis
    apply (intro conjI)
    by (rule cur step rnd err refs)+
qed

theorem rating_projection_witness:
  "awayOff (scenarioBaseline\<lparr>awayOff := 90\<rparr>) \<noteq> awayOffensiveNumericGrade scenarioRatings
   \<and> currentAwayOff scenarioRatings (scenarioBaseline\<lparr>awayOff := 90\<rparr>) = 590 / 39
   \<and> roundedAwayOff scenarioRatings (scenarioBaseline\<lparr>awayOff := 90\<rparr>) = 15.13
   \<and> recomputeRefs scenarioRatings (scenarioBaseline\<lparr>awayOff := 90\<rparr>)
        \<lparr>currentAwayOffensiveRatingRef = None, currentAwayDefensiveRatingRef = None,
         currentHomeOffensiveRatingRef = None, currentHomeDefensiveRatingRef = None\<rparr>
      = \<lparr>currentAwayOffensiveRatingRef = Some 15.13, currentAwayDefensiveRatingRef = Some 5,
         currentHomeOffensiveRatingRef = Some 11, currentHomeDefensiveRatingRef = Some 8\<rparr>"
proof -
  let ?s = "scenarioBaseline\<lparr>awayOff := 90\<rparr>"
  have ne: "awayOff ?s \<noteq> awayOffensiveNumericGrade scenarioRatings"
    by (simp add: scenarioRatings_def scenarioBaseline_def)
  have c: "currentAwayOff scenarioRatings ?s = 590 / 39"
    by (simp add: currentAwayOff_def scenarioRatings_def scenarioBaseline_def newRange_def)
  have r: "roundedAwayOff scenarioRatings ?s = 15.13" "roundedAwayDef scenarioRatings ?s = 5"
    "roundedHomeOff scenarioRatings ?s = 11" "roundedHomeDef scenarioRatings ?s = 8"
    by (simp_all add: roundedAwayOff_def roundedAwayDef_def roundedHomeOff_def
          roundedHomeDef_def currentAwayOff_def currentAwayDef_def currentHomeOff_def
          currentHomeDef_def scenarioRatings_def scenarioBaseline_def newRange_def
          Math_round_def)
  have "recomputeRefs scenarioRatings ?s
        \<lparr>currentAwayOffensiveRatingRef = None, currentAwayDefensiveRatingRef = None,
         currentHomeOffensiveRatingRef = None, currentHomeDefensiveRatingRef = None\<rparr>
      = \<lparr>currentAwayOffensiveRatingRef = Some (roundedAwayOff scenarioRatings ?s),
         currentAwayDefensiveRatingRef = Some (roundedAwayDef scenarioRatings ?s),
         currentHomeOffensiveRatingRef = Some (roundedHomeOff scenarioRatings ?s),
         currentHomeDefensiveRatingRef = Some (roundedHomeDef scenarioRatings ?s)\<rparr>"
    using ne rating_projection [of scenarioRatings ?s
        "\<lparr>currentAwayOffensiveRatingRef = None, currentAwayDefensiveRatingRef = None,
         currentHomeOffensiveRatingRef = None, currentHomeDefensiveRatingRef = None\<rparr>"]
    by blast
  then show ?thesis
    using ne c r by simp
qed

subsection \<open>Win probability\<close>

lemma exp_8_lower: "8 \<le> (x::real) \<Longrightarrow> 999 \<le> exp x"
proof -
  assume x: "8 \<le> x"
  have "(1 + 8 / of_nat 32) ^ 32 \<le> exp (8::real)"
    by (rule exp_ge_one_plus_x_over_n_power_n) simp_all
  moreover have "(999::real) \<le> (1 + 8 / of_nat 32) ^ 32" by (simp add: power_divide)
  moreover have "exp 8 \<le> exp x" using x by simp
  ultimately show ?thesis by linarith
qed

text \<open>From a product of 8 on, the logistic value is past the upper clamp.\<close>

lemma logistic_saturates:
  "8 \<le> (x::real) \<Longrightarrow> max (1 / 1000) (min (999 / 1000) (1 / (1 + exp (- x)))) = 999 / 1000"
proof -
  assume x: "8 \<le> x"
  have e: "999 \<le> exp x" by (rule exp_8_lower [OF x])
  have "exp (- x) = 1 / exp x" by (rule exp_minus')
  also have "\<dots> \<le> 1 / 999" using e by (simp add: field_simps)
  finally have le: "exp (- x) \<le> 1 / 999" .
  have pos: "0 < 1 + exp (- x)" by (simp add: add_pos_pos)
  have "999 / 1000 * (1 + exp (- x)) \<le> 1" using le by simp
  then have "999 / 1000 \<le> 1 / (1 + exp (- x))"
    using pos by (simp only: pos_le_divide_eq)
  then show ?thesis by (simp add: max_def min_def)
qed

lemma clamp_bounds:
  "1 / 1000 \<le> max (1 / 1000) (min (999 / 1000) (p::real))"
  "max (1 / 1000) (min (999 / 1000) (p::real)) \<le> 999 / 1000"
  by (simp_all add: max_def min_def)

lemma recompute_published:
  "awayOffChanged orig s \<or> awayDefChanged orig s \<or> homeOffChanged orig s \<or> homeDefChanged orig s
     \<Longrightarrow> recomputeScores orig s sport (nullish refA (away_score prev))
            (nullish refH (home_score prev)) \<noteq> (away_score prev, home_score prev)
     \<Longrightarrow> recompute orig refA refH sport s prev =
          recomputedResult orig s sport (nullish refA (away_score prev))
            (nullish refH (home_score prev))"
  unfolding recompute_def
  by (auto simp: Let_def recomputedResult_scores prod_eq_iff)

text \<open>
  Claim C4. In the object the recompute path builds, the spread is the home score minus
  the away score, the home probability is
  \<open>1 / (1 + exp (- k * spread))\<close> clamped to at least 0.001 and at most 0.999, and the
  away probability is one minus it, where \<open>k\<close> is 0.15 for \<open>nfl\<close> and
  \<open>college-football\<close> and 0.13 for \<open>nba\<close> and \<open>college-basketball\<close>; any code other
  than \<open>nfl\<close> and \<open>college-football\<close> selects 0.13. That object becomes the state when
  a slider is off its baseline and a score differs from the one held.
\<close>

theorem recompute_win_probability:
  "spread (recomputedResult orig s sport oa oh)
     = home_score (recomputedResult orig s sport oa oh)
         - away_score (recomputedResult orig s sport oa oh)
   \<and> home_win_probability (recomputedResult orig s sport oa oh)
     = max 0.001 (min 0.999
         (1 / (1 + exp (- (case sport of NFL \<Rightarrow> 0.15 | CollegeFootball \<Rightarrow> 0.15
                              | NBA \<Rightarrow> 0.13 | CollegeBasketball \<Rightarrow> 0.13)
                          * spread (recomputedResult orig s sport oa oh)))))
   \<and> away_win_probability (recomputedResult orig s sport oa oh)
     = 1 - home_win_probability (recomputedResult orig s sport oa oh)
   \<and> recompute_k ''nfl'' = 0.15 \<and> recompute_k ''college-football'' = 0.15
   \<and> recompute_k ''nba'' = 0.13 \<and> recompute_k ''college-basketball'' = 0.13
   \<and> (code \<noteq> ''nfl'' \<and> code \<noteq> ''college-football'' \<longrightarrow> recompute_k code = 0.13)
   \<and> ((awayOff s \<noteq> awayOffensiveNumericGrade orig \<or> awayDef s \<noteq> awayDefensiveNumericGrade orig
        \<or> homeOff s \<noteq> homeOffensiveNumericGrade orig
        \<or> homeDef s \<noteq> homeDefensiveNumericGrade orig)
       \<and> (away_score (recomputedResult orig s sport (nullish refA (away_score prev))
                        (nullish refH (home_score prev))) \<noteq> away_score prev
          \<or> home_score (recomputedResult orig s sport (nullish refA (away_score prev))
                        (nullish refH (home_score prev))) \<noteq> home_score prev)
       \<longrightarrow> recompute orig refA refH sport s prev
             = recomputedResult orig s sport (nullish refA (away_score prev))
                 (nullish refH (home_score prev)))"
proof -
  have k: "recompute_k (sportCode sport)
      = (case sport of NFL \<Rightarrow> 0.15 | CollegeFootball \<Rightarrow> 0.15 | NBA \<Rightarrow> 0.13
         | CollegeBasketball \<Rightarrow> 0.13)"
    by (cases sport) (simp_all add: recompute_k_def)
  have sp: "spread (recomputedResult orig s sport oa oh)
     = home_score (recomputedResult orig s sport oa oh)
         - away_score (recomputedResult orig s sport oa oh)"
    unfolding recomputedResult_def by (simp add: Let_def split: prod.split)
  have hp: "home_win_probability (recomputedResult orig s sport oa oh)
     = max 0.001 (min 0.999
         (1 / (1 + exp (- recompute_k (sportCode sport)
                          * spread (recomputedResult orig s sport oa oh)))))"
    unfolding recomputedResult_def by (simp add: Let_def split: prod.split)
  have ap: "away_win_probability (recomputedResult orig s sport oa oh)
     = 1 - home_win_probability (recomputedResult orig s sport oa oh)"
    unfolding recomputedResult_def by (simp add: Let_def split: prod.split)
  have ks: "recompute_k ''nfl'' = 0.15" "recompute_k ''college-football'' = 0.15"
    "recompute_k ''nba'' = 0.13" "recompute_k ''college-basketball'' = 0.13"
    "code \<noteq> ''nfl'' \<and> code \<noteq> ''college-football'' \<longrightarrow> recompute_k code = 0.13"
    by (simp_all add: recompute_k_def)
  have pub: "(awayOff s \<noteq> awayOffensiveNumericGrade orig \<or> awayDef s \<noteq> awayDefensiveNumericGrade orig
        \<or> homeOff s \<noteq> homeOffensiveNumericGrade orig
        \<or> homeDef s \<noteq> homeDefensiveNumericGrade orig)
       \<and> (away_score (recomputedResult orig s sport (nullish refA (away_score prev))
                        (nullish refH (home_score prev))) \<noteq> away_score prev
          \<or> home_score (recomputedResult orig s sport (nullish refA (away_score prev))
                        (nullish refH (home_score prev))) \<noteq> home_score prev)
       \<longrightarrow> recompute orig refA refH sport s prev
             = recomputedResult orig s sport (nullish refA (away_score prev))
                 (nullish refH (home_score prev))"
    unfolding recompute_def
    by (auto simp: Let_def awayOffChanged_def awayDefChanged_def homeOffChanged_def
          homeDefChanged_def)
  show ?thesis
    apply (intro conjI)
    by (rule sp hp [unfolded k] ap ks pub)+
qed

lemma scenario_moved_scores:
  "recomputeScores scenarioRatings (scenarioBaseline\<lparr>awayOff := 90\<rparr>) NFL 17 24 = (22, 24)"
proof -
  let ?s = "scenarioBaseline\<lparr>awayOff := 90\<rparr>"
  have r: "roundedAwayOff scenarioRatings ?s = 15.13" "roundedHomeDef scenarioRatings ?s = 8"
    by (simp_all add: roundedAwayOff_def roundedHomeDef_def currentAwayOff_def
          currentHomeDef_def scenarioRatings_def scenarioBaseline_def newRange_def Math_round_def)
  have c: "calculatedOriginalAway scenarioRatings = 3.25 + (hfa scenarioRatings - 1.25)"
    by (simp add: calculatedOriginalAway_def scenarioRatings_def)
  have ch: "awayOffChanged scenarioRatings ?s" "\<not> homeOffChanged scenarioRatings ?s"
    "\<not> awayDefChanged scenarioRatings ?s"
    by (simp_all add: awayOffChanged_def homeOffChanged_def awayDefChanged_def
          scenarioRatings_def scenarioBaseline_def)
  have rs: "roundScore (2213 / 100) ''nfl'' = 22"
    by (simp add: roundScore_def Math_round_def)
  have "fst (recomputeScores scenarioRatings ?s NFL 17 24) = 22"
    by (simp add: recomputeScores_fst ch r c rs)
  moreover have "snd (recomputeScores scenarioRatings ?s NFL 17 24) = 24"
    by (simp add: recomputeScores_snd ch)
  ultimately show ?thesis by (simp add: prod_eq_iff)
qed

theorem recompute_win_probability_witness:
  "''cfb'' \<noteq> ''nfl'' \<and> ''cfb'' \<noteq> ''college-football'' \<and> recompute_k ''cfb'' = 0.13
   \<and> awayOff (scenarioBaseline\<lparr>awayOff := 90\<rparr>) \<noteq> awayOffensiveNumericGrade scenarioRatings
   \<and> away_score (recomputedResult scenarioRatings (scenarioBaseline\<lparr>awayOff := 90\<rparr>) NFL 17 24)
       \<noteq> away_score scenarioResult
   \<and> spread (recompute scenarioRatings (Some 17) (Some 24) NFL
        (scenarioBaseline\<lparr>awayOff := 90\<rparr>) scenarioResult) = 2
   \<and> home_win_probability (recompute scenarioRatings (Some 17) (Some 24) NFL
        (scenarioBaseline\<lparr>awayOff := 90\<rparr>) scenarioResult)
      = max 0.001 (min 0.999 (1 / (1 + exp (- 0.15 * 2))))"
proof -
  let ?s = "scenarioBaseline\<lparr>awayOff := 90\<rparr>"
  have ne: "awayOff ?s \<noteq> awayOffensiveNumericGrade scenarioRatings"
    by (simp add: scenarioRatings_def scenarioBaseline_def)
  have sc: "away_score (recomputedResult scenarioRatings ?s NFL 17 24) = 22"
    "home_score (recomputedResult scenarioRatings ?s NFL 17 24) = 24"
    by (simp_all add: recomputedResult_scores scenario_moved_scores)
  have prev: "away_score scenarioResult = 17" "home_score scenarioResult = 24"
    by (simp_all add: scenarioResult_def)
  have n: "nullish (Some 17) 17 = 17" "nullish (Some 24) 24 = 24"
    by (simp_all add: nullish_def)
  show ?thesis
    using ne recompute_win_probability [of scenarioRatings ?s NFL 17 24 "''cfb''"
        "Some 17" scenarioResult "Some 24"]
    unfolding prev n sc by simp
qed

text \<open>
  Claim C8, as amended. In the object the recompute path builds, and in the result of
  \<open>calculateWinProbability\<close>, the two probabilities sum to 1 and each lies in the
  closed interval from 0.001 to 0.999, hence strictly between 0 and 1.
\<close>

theorem win_probability_complementary:
  "away_win_probability (recomputedResult orig s sport oa oh)
     + home_win_probability (recomputedResult orig s sport oa oh) = 1
   \<and> 0.001 \<le> home_win_probability (recomputedResult orig s sport oa oh)
   \<and> home_win_probability (recomputedResult orig s sport oa oh) \<le> 0.999
   \<and> 0.001 \<le> away_win_probability (recomputedResult orig s sport oa oh)
   \<and> away_win_probability (recomputedResult orig s sport oa oh) \<le> 0.999
   \<and> 0 < home_win_probability (recomputedResult orig s sport oa oh)
   \<and> home_win_probability (recomputedResult orig s sport oa oh) < 1
   \<and> 0 < away_win_probability (recomputedResult orig s sport oa oh)
   \<and> away_win_probability (recomputedResult orig s sport oa oh) < 1
   \<and> away (calculateWinProbability homeScore awayScore code)
       + home (calculateWinProbability homeScore awayScore code) = 1
   \<and> 0.001 \<le> home (calculateWinProbability homeScore awayScore code)
   \<and> home (calculateWinProbability homeScore awayScore code) \<le> 0.999
   \<and> 0.001 \<le> away (calculateWinProbability homeScore awayScore code)
   \<and> away (calculateWinProbability homeScore awayScore code) \<le> 0.999"
proof -
  define p where "p = 1 / (1 + exp (- recompute_k (sportCode sport)
      * (snd (recomputeScores orig s sport oa oh) - fst (recomputeScores orig s sport oa oh))))"
  have hp: "home_win_probability (recomputedResult orig s sport oa oh)
      = max (1 / 1000) (min (999 / 1000) p)"
    and ap: "away_win_probability (recomputedResult orig s sport oa oh)
      = 1 - max (1 / 1000) (min (999 / 1000) p)"
    unfolding recomputedResult_def p_def by (simp_all add: Let_def split: prod.split)
  define q where "q = 1 / (1 + exp (-
      (if code = ''nba'' \<or> code = ''college-basketball'' then 0.10
       else if code = ''nfl'' \<or> code = ''cfb'' \<or> code = ''college-football'' then 0.15
       else 0.12) * (homeScore - awayScore)))"
  have hq: "home (calculateWinProbability homeScore awayScore code)
      = max (1 / 1000) (min (999 / 1000) q)"
    and aq: "away (calculateWinProbability homeScore awayScore code)
      = 1 - max (1 / 1000) (min (999 / 1000) q)"
    unfolding calculateWinProbability_def q_def by (simp_all add: Let_def)
  define P where "P = max (1 / 1000) (min (999 / 1000) p)"
  define Q where "Q = max (1 / 1000) (min (999 / 1000) q)"
  have b: "1 / 1000 \<le> P" "P \<le> 999 / 1000" "1 / 1000 \<le> Q" "Q \<le> 999 / 1000"
    unfolding P_def Q_def by (rule clamp_bounds)+
  show ?thesis
    unfolding hp ap hq aq P_def [symmetric] Q_def [symmetric]
    using b by simp
qed

text \<open>
  Claim C8 as stated fails at the ends of the interval: with a spread of 55 in college
  football the logistic value is past 0.999, so the home probability is exactly 0.999
  and the away probability exactly 0.001.
\<close>

theorem win_probability_counterexample:
  "spread (recompute scenarioRatings (Some 10) (Some 66) CollegeFootball
      (scenarioBaseline\<lparr>awayOff := 81\<rparr>) blowoutResult) = 55
   \<and> home_win_probability (recompute scenarioRatings (Some 10) (Some 66) CollegeFootball
      (scenarioBaseline\<lparr>awayOff := 81\<rparr>) blowoutResult) = 0.999
   \<and> away_win_probability (recompute scenarioRatings (Some 10) (Some 66) CollegeFootball
      (scenarioBaseline\<lparr>awayOff := 81\<rparr>) blowoutResult) = 0.001"
proof -
  let ?s = "scenarioBaseline\<lparr>awayOff := 81\<rparr>"
  have r: "roundedAwayOff scenarioRatings ?s = 10.51" "roundedHomeDef scenarioRatings ?s = 8"
    by (simp_all add: roundedAwayOff_def roundedHomeDef_def currentAwayOff_def
          currentHomeDef_def scenarioRatings_def scenarioBaseline_def newRange_def Math_round_def)
  have c: "calculatedOriginalAway scenarioRatings = 3.25 + (hfa scenarioRatings - 1.25)"
    by (simp add: calculatedOriginalAway_def scenarioRatings_def)
  have ch: "awayOffChanged scenarioRatings ?s" "\<not> homeOffChanged scenarioRatings ?s"
    "\<not> awayDefChanged scenarioRatings ?s"
    by (simp_all add: awayOffChanged_def homeOffChanged_def awayDefChanged_def
          scenarioRatings_def scenarioBaseline_def)
  have rs: "roundScore (1051 / 100) ''college-football'' = 11"
    by (simp add: roundScore_def Math_round_def)
  have f: "fst (recomputeScores scenarioRatings ?s CollegeFootball 10 66) = 11"
    by (simp add: recomputeScores_fst ch r c rs)
  have g: "snd (recomputeScores scenarioRatings ?s CollegeFootball 10 66) = 66"
    by (simp add: recomputeScores_snd ch)
  have sc: "recomputeScores scenarioRatings ?s CollegeFootball 10 66 = (11, 66)"
    using f g by (simp add: prod_eq_iff)
  have sat: "max (1 / 1000) (min (999 / 1000) (1 / (1 + exp (- (33 / 4 :: real))))) = 999 / 1000"
    by (rule logistic_saturates) simp
  have res: "recomputedResult scenarioRatings ?s CollegeFootball 10 66 =
      \<lparr>away_score = 11, home_score = 66, spread = 55, total = 77,
       away_win_probability = 1 / 1000, home_win_probability = 999 / 1000\<rparr>"
    unfolding recomputedResult_def sc by (simp add: Let_def recompute_k_def sat)
  have "recompute scenarioRatings (Some 10) (Some 66) CollegeFootball ?s blowoutResult
      = recomputedResult scenarioRatings ?s CollegeFootball 10 66"
    using recompute_published [of scenarioRatings ?s CollegeFootball "Some 10" blowoutResult
        "Some 66"] ch sc
    by (simp add: nullish_def blowoutResult_def)
  then show ?thesis by (simp add: res)
qed

subsection \<open>Monotonicity in the away-offense grade\<close>

lemma Math_round_fix_lower: "Math_round x = x \<Longrightarrow> - 1 / 2 < d \<Longrightarrow> x \<le> Math_round (x + d)"
proof -
  assume fx: "Math_round x = x" and d: "- 1 / 2 < d"
  define n where "n = \<lfloor>x + 1 / 2\<rfloor>"
  have x: "x = of_int n" using fx unfolding Math_round_def n_def by simp
  have "of_int n \<le> Math_round (x + d)"
    by (rule Math_round_ge_of_int) (use x d in linarith)
  then show ?thesis using x by simp
qed

lemma Math_round_fix_upper: "Math_round x = x \<Longrightarrow> d < 1 / 2 \<Longrightarrow> Math_round (x + d) \<le> x"
proof -
  assume fx: "Math_round x = x" and d: "d < 1 / 2"
  define n where "n = \<lfloor>x + 1 / 2\<rfloor>"
  have x: "x = of_int n" using fx unfolding Math_round_def n_def by simp
  have "Math_round (x + d) \<le> of_int n"
    by (rule Math_round_le_of_int) (use x d in linarith)
  then show ?thesis using x by simp
qed

text \<open>
  A baseline score that the rounding policy leaves as it is stays a lower bound of the
  rounded score when less than a half is taken off, and an upper bound when less than a
  half is added.
\<close>

lemma rounded_fixpoint_lower:
  assumes fx: "max 0 (roundScore x sport) = x" and d: "- 1 / 2 < d"
  shows "x \<le> max 0 (roundScore (x + d) sport)"
proof (cases "x = 0")
  case True
  then show ?thesis by simp
next
  case False
  with fx have rx: "roundScore x sport = x" and pos: "0 < x"
    by (auto simp: max_def split: if_splits)
  have six: "6 \<le> x + d \<Longrightarrow> 6 \<le> Math_round (x + d)"
    using Math_round_ge_of_int [of 6 "x + d"] by simp
  have "x \<le> roundScore (x + d) sport"
  proof (cases "sport = ''cfb'' \<or> sport = ''nfl'' \<or> sport = ''college-football''")
    case fb: True
    consider "x = 3" | "6 \<le> x" "Math_round x = x"
      using rx pos fb unfolding roundScore_def by (auto split: if_splits)
    then show ?thesis
    proof cases
      case 1
      then show ?thesis
        using d fb six unfolding roundScore_def by (auto simp: not_le not_less)
    next
      case 2
      have "x \<le> Math_round (x + d)" by (rule Math_round_fix_lower [OF 2(2) d])
      moreover have "x + d < 6 \<Longrightarrow> x \<le> 6"
      proof -
        assume lt: "x + d < 6"
        have "Math_round (x + d) \<le> 6" using Math_round_le_of_int [of "x + d" 6] lt by simp
        with \<open>x \<le> Math_round (x + d)\<close> show "x \<le> 6" by linarith
      qed
      ultimately show ?thesis
        using d fb 2(1) unfolding roundScore_def by (auto simp: not_le not_less)
    qed
  next
    case nfb: False
    then have "Math_round x = x" using rx unfolding roundScore_def by simp
    then have "x \<le> Math_round (x + d)" by (rule Math_round_fix_lower [OF _ d])
    then show ?thesis using nfb unfolding roundScore_def by simp
  qed
  then show ?thesis by simp
qed

lemma rounded_fixpoint_upper:
  assumes fx: "max 0 (roundScore x sport) = x" and d: "d < 1 / 2"
  shows "max 0 (roundScore (x + d) sport) \<le> x"
proof -
  have x0: "0 \<le> x" using fx by (metis max.cobounded1)
  have "roundScore (x + d) sport \<le> x"
  proof (cases "sport = ''cfb'' \<or> sport = ''nfl'' \<or> sport = ''college-football''")
    case fb: True
    consider "x = 0" | "x = 3" | "6 \<le> x" "Math_round x = x"
      using fx fb unfolding roundScore_def by (auto simp: max_def split: if_splits)
    then show ?thesis
    proof cases
      case 1
      then show ?thesis using d fb unfolding roundScore_def by auto
    next
      case 2
      then show ?thesis using d fb unfolding roundScore_def by auto
    next
      case 3
      have "Math_round (x + d) \<le> x" by (rule Math_round_fix_upper [OF 3(2) d])
      then show ?thesis using fb 3(1) unfolding roundScore_def by auto
    qed
  next
    case nfb: False
    then have rx: "max 0 (Math_round x) = x" using fx unfolding roundScore_def by simp
    show ?thesis
    proof (cases "x = 0")
      case True
      have "Math_round d \<le> 0" using Math_round_le_of_int [of d 0] d by simp
      then show ?thesis using True nfb unfolding roundScore_def by simp
    next
      case False
      with rx x0 have "Math_round x = x" by (auto simp: max_def split: if_splits)
      then have "Math_round (x + d) \<le> x" by (rule Math_round_fix_upper [OF _ d])
      then show ?thesis using nfb unfolding roundScore_def by simp
    qed
  qed
  then show ?thesis using x0 by simp
qed

lemma round2_mono: "x \<le> y \<Longrightarrow> Math_round (x * 100) / 100 \<le> Math_round (y * 100) / 100"
  using Math_round_mono [of "x * 100" "y * 100"] by (simp add: divide_right_mono)

lemma roundedAwayOff_mono:
  assumes "0 \<le> offensiveRange orig" and "g1 \<le> g2"
  shows "roundedAwayOff orig (s\<lparr>awayOff := g1\<rparr>) \<le> roundedAwayOff orig (s\<lparr>awayOff := g2\<rparr>)"
proof -
  have "(g1 - awayOffensiveNumericGrade orig) * offensiveRange orig
      \<le> (g2 - awayOffensiveNumericGrade orig) * offensiveRange orig"
    using assms by (simp add: mult_right_mono)
  then have "currentAwayOff orig (s\<lparr>awayOff := g1\<rparr>) \<le> currentAwayOff orig (s\<lparr>awayOff := g2\<rparr>)"
    unfolding currentAwayOff_def newRange_def by (simp add: divide_right_mono)
  then show ?thesis unfolding roundedAwayOff_def by (rule round2_mono)
qed

lemma roundedHomeDef_awayOff:
  "roundedHomeDef orig (s\<lparr>awayOff := g\<rparr>) = roundedHomeDef orig s"
  by (simp add: roundedHomeDef_def currentHomeDef_def)

text \<open>
  Claim C6, as amended. With an offensive range that is not negative and the other three
  sliders fixed, the away score after the effect at the away-offense grade \<open>g2\<close> is at
  least the one at a grade \<open>g1 \<le> g2\<close>, provided the home-defense slider is off its
  baseline, or neither grade is the baseline away-offense grade, or the baseline away
  score is one the rounding policy and the floor leave as it is.
\<close>

theorem away_score_monotone:
  assumes rng: "0 \<le> offensiveRange orig" and le: "g1 \<le> g2"
    and side: "homeDef s \<noteq> homeDefensiveNumericGrade orig
       \<or> (g1 \<noteq> awayOffensiveNumericGrade orig \<and> g2 \<noteq> awayOffensiveNumericGrade orig)
       \<or> max 0 (roundScore (nullish refA (away_score prev)) (sportCode sport))
           = nullish refA (away_score prev)"
  shows "away_score (recompute orig refA refH sport (s\<lparr>awayOff := g1\<rparr>) prev)
           \<le> away_score (recompute orig refA refH sport (s\<lparr>awayOff := g2\<rparr>) prev)"
proof -
  define oa where "oa = nullish refA (away_score prev)"
  define base where "base = awayOffensiveNumericGrade orig"
  define d where "d = (\<lambda>g. roundedAwayOff orig (s\<lparr>awayOff := g\<rparr>) - roundedHomeDef orig s
      + hfa orig - calculatedOriginalAway orig)"
  define F where "F = (\<lambda>g. max 0 (roundScore (oa + d g) (sportCode sport)))"
  have score: "away_score (recompute orig refA refH sport (s\<lparr>awayOff := g\<rparr>) prev)
      = (if g \<noteq> base \<or> homeDef s \<noteq> homeDefensiveNumericGrade orig then F g else oa)" for g
    unfolding F_def d_def oa_def base_def
    by (simp add: recompute_away_score recomputeScores_fst awayOffChanged_def homeDefChanged_def
          roundedHomeDef_awayOff)
  have dmono: "d g1 \<le> d g2"
    unfolding d_def using roundedAwayOff_mono [OF rng le, of s] by simp
  have Fmono: "F g1 \<le> F g2"
    unfolding F_def using roundScore_mono [of "oa + d g1" "oa + d g2" "sportCode sport"] dmono
    by (simp add: max.coboundedI2)
  have atbase: "roundedAwayOff orig (s\<lparr>awayOff := base\<rparr>)
      = Math_round (awayOffensiveRating orig * 100) / 100"
    unfolding roundedAwayOff_def currentAwayOff_def base_def by simp
  have dbase: "\<bar>d base\<bar> \<le> 1 / 100" if hd: "homeDef s = homeDefensiveNumericGrade orig"
  proof -
    have rhd: "roundedHomeDef orig s = Math_round (homeDefensiveRating orig * 100) / 100"
      unfolding roundedHomeDef_def currentHomeDef_def using hd by simp
    have "d base = (Math_round (awayOffensiveRating orig * 100) / 100 - awayOffensiveRating orig)
        - (Math_round (homeDefensiveRating orig * 100) / 100 - homeDefensiveRating orig)"
      unfolding d_def atbase rhd calculatedOriginalAway_def by simp
    then show ?thesis
      using round2_error [of "awayOffensiveRating orig"] round2_error [of "homeDefensiveRating orig"]
      by linarith
  qed
  show ?thesis
  proof (cases "homeDef s \<noteq> homeDefensiveNumericGrade orig \<or> (g1 \<noteq> base \<and> g2 \<noteq> base)")
    case True
    then show ?thesis using Fmono by (auto simp: score)
  next
    case False
    then have hd: "homeDef s = homeDefensiveNumericGrade orig" and b: "g1 = base \<or> g2 = base"
      by auto
    from False side have fx: "max 0 (roundScore oa (sportCode sport)) = oa"
      unfolding oa_def base_def by auto
    show ?thesis
    proof (cases "g1 = base")
      case g1: True
      show ?thesis
      proof (cases "g2 = base")
        case True
        with g1 show ?thesis by simp
      next
        case g2: False
        have "d base \<le> d g2" using dmono g1 by simp
        then have "- 1 / 2 < d g2" using dbase [OF hd] by linarith
        then have "oa \<le> F g2" unfolding F_def by (rule rounded_fixpoint_lower [OF fx])
        then show ?thesis using g1 g2 hd by (simp add: score)
      qed
    next
      case g1: False
      with b have g2: "g2 = base" by simp
      have "d g1 \<le> d base" using dmono g2 by simp
      then have "d g1 < 1 / 2" using dbase [OF hd] by linarith
      then have "F g1 \<le> oa" unfolding F_def by (rule rounded_fixpoint_upper [OF fx])
      then show ?thesis using g1 g2 hd by (simp add: score)
    qed
  qed
qed

theorem away_score_monotone_witness:
  "0 \<le> offensiveRange scenarioRatings \<and> (85::real) \<le> 90
   \<and> 85 \<noteq> awayOffensiveNumericGrade scenarioRatings
   \<and> 90 \<noteq> awayOffensiveNumericGrade scenarioRatings
   \<and> away_score (recompute scenarioRatings (Some 17) (Some 24) NFL
        (scenarioBaseline\<lparr>awayOff := 85\<rparr>) scenarioResult)
      \<le> away_score (recompute scenarioRatings (Some 17) (Some 24) NFL
        (scenarioBaseline\<lparr>awayOff := 90\<rparr>) scenarioResult)
   \<and> max 0 (roundScore (nullish (Some 17) (away_score scenarioResult)) (sportCode NFL))
       = nullish (Some 17) (away_score scenarioResult)
   \<and> away_score (recompute scenarioRatings (Some 17) (Some 24) NFL
        (scenarioBaseline\<lparr>awayOff := 80\<rparr>) scenarioResult)
      \<le> away_score (recompute scenarioRatings (Some 17) (Some 24) NFL
        (scenarioBaseline\<lparr>awayOff := 81\<rparr>) scenarioResult)"
proof -
  have rng: "0 \<le> offensiveRange scenarioRatings" by (simp add: scenarioRatings_def)
  have ne: "85 \<noteq> awayOffensiveNumericGrade scenarioRatings"
    "90 \<noteq> awayOffensiveNumericGrade scenarioRatings"
    by (simp_all add: scenarioRatings_def)
  have fx: "max 0 (roundScore (nullish (Some 17) (away_score scenarioResult)) (sportCode NFL))
       = nullish (Some 17) (away_score scenarioResult)"
    by (simp add: nullish_def roundScore_def Math_round_def)
  have one: "away_score (recompute scenarioRatings (Some 17) (Some 24) NFL
        (scenarioBaseline\<lparr>awayOff := 85\<rparr>) scenarioResult)
      \<le> away_score (recompute scenarioRatings (Some 17) (Some 24) NFL
        (scenarioBaseline\<lparr>awayOff := 90\<rparr>) scenarioResult)"
    by (rule away_score_monotone [OF rng]) (use ne in simp_all)
  have two: "away_score (recompute scenarioRatings (Some 17) (Some 24) NFL
        (scenarioBaseline\<lparr>awayOff := 80\<rparr>) scenarioResult)
      \<le> away_score (recompute scenarioRatings (Some 17) (Some 24) NFL
        (scenarioBaseline\<lparr>awayOff := 81\<rparr>) scenarioResult)"
    by (rule away_score_monotone [OF rng]) (use fx in simp_all)
  show ?thesis using rng ne fx one two by simp
qed

text \<open>
  Claim C6 as stated fails at the baseline grade, where the away score is the baseline
  score itself and not a rounded one: with a football baseline away score of 1, the
  grade 80 (the baseline) gives 1 and the grade 81 gives 0.
\<close>

theorem away_score_monotone_counterexample:
  "away_score (recompute scenarioRatings (Some 1) (Some 24) NFL
      (scenarioBaseline\<lparr>awayOff := 80\<rparr>) lowScoreResult) = 1
   \<and> away_score (recompute scenarioRatings (Some 1) (Some 24) NFL
      (scenarioBaseline\<lparr>awayOff := 81\<rparr>) lowScoreResult) = 0"
proof -
  let ?s = "scenarioBaseline\<lparr>awayOff := 81\<rparr>"
  have r: "roundedAwayOff scenarioRatings ?s = 10.51" "roundedHomeDef scenarioRatings ?s = 8"
    by (simp_all add: roundedAwayOff_def roundedHomeDef_def currentAwayOff_def
          currentHomeDef_def scenarioRatings_def scenarioBaseline_def newRange_def Math_round_def)
  have c: "calculatedOriginalAway scenarioRatings = 3.25 + (hfa scenarioRatings - 1.25)"
    by (simp add: calculatedOriginalAway_def scenarioRatings_def)
  have ch: "awayOffChanged scenarioRatings ?s"
    by (simp add: awayOffChanged_def scenarioRatings_def scenarioBaseline_def)
  have rs: "roundScore (151 / 100) ''nfl'' = 0"
    by (simp add: roundScore_def)
  have up: "away_score (recompute scenarioRatings (Some 1) (Some 24) NFL ?s lowScoreResult) = 0"
    by (simp add: recompute_away_score recomputeScores_fst ch r c rs nullish_def)
  have un: "\<not> awayOffChanged scenarioRatings (scenarioBaseline\<lparr>awayOff := 80\<rparr>)"
    "\<not> homeDefChanged scenarioRatings (scenarioBaseline\<lparr>awayOff := 80\<rparr>)"
    by (simp_all add: awayOffChanged_def homeDefChanged_def scenarioRatings_def
          scenarioBaseline_def)
  have at: "away_score (recompute scenarioRatings (Some 1) (Some 24) NFL
      (scenarioBaseline\<lparr>awayOff := 80\<rparr>) lowScoreResult) = 1"
    by (simp add: recompute_away_score recomputeScores_fst un nullish_def)
  show ?thesis using at up by simp
qed

text \<open>
  The range must not be negative: were the offensive range of the scenario \<open>-20\<close>, the
  grade 85 would give 14 and the grade 90 would give 12.
\<close>

lemma negative_range_reverses:
  "away_score (recompute (scenarioRatings\<lparr>offensiveRange := - 20\<rparr>) (Some 17) (Some 24) NFL
      (scenarioBaseline\<lparr>awayOff := 85\<rparr>) scenarioResult) = 14
   \<and> away_score (recompute (scenarioRatings\<lparr>offensiveRange := - 20\<rparr>) (Some 17) (Some 24) NFL
      (scenarioBaseline\<lparr>awayOff := 90\<rparr>) scenarioResult) = 12"
proof -
  let ?o = "scenarioRatings\<lparr>offensiveRange := - 20\<rparr>"
  have r: "roundedAwayOff ?o (scenarioBaseline\<lparr>awayOff := 85\<rparr>) = 7.44"
    "roundedAwayOff ?o (scenarioBaseline\<lparr>awayOff := 90\<rparr>) = 4.87"
    "roundedHomeDef ?o (scenarioBaseline\<lparr>awayOff := 85\<rparr>) = 8"
    "roundedHomeDef ?o (scenarioBaseline\<lparr>awayOff := 90\<rparr>) = 8"
    by (simp_all add: roundedAwayOff_def roundedHomeDef_def currentAwayOff_def
          currentHomeDef_def scenarioRatings_def scenarioBaseline_def newRange_def Math_round_def)
  have c: "calculatedOriginalAway ?o = 3.25 + (hfa ?o - 1.25)"
    by (simp add: calculatedOriginalAway_def scenarioRatings_def)
  have ch: "awayOffChanged ?o (scenarioBaseline\<lparr>awayOff := 85\<rparr>)"
    "awayOffChanged ?o (scenarioBaseline\<lparr>awayOff := 90\<rparr>)"
    by (simp_all add: awayOffChanged_def scenarioRatings_def scenarioBaseline_def)
  have rs: "roundScore (361 / 25) ''nfl'' = 14" "roundScore (1187 / 100) ''nfl'' = 12"
    by (simp_all add: roundScore_def Math_round_def)
  show ?thesis
    by (simp add: recompute_away_score recomputeScores_fst ch r c rs nullish_def)
qed

subsection \<open>Team matching\<close>

lemma orElseTeam_simps [simp]:
  "orElseTeam (Some t) b = Some t" "orElseTeam None b = b"
  by (simp_all add: orElseTeam_def)

text \<open>\<open>find\<close> returns the element at the least index that satisfies the predicate.\<close>

lemma find_first:
  "(\<exists>i < length xs. P (xs ! i)) \<Longrightarrow>
     \<exists>i < length xs. find P xs = Some (xs ! i) \<and> P (xs ! i) \<and> (\<forall>j < i. \<not> P (xs ! j))"
proof -
  assume "\<exists>i < length xs. P (xs ! i)"
  then have "find P xs \<noteq> None" by (auto simp: find_None_iff in_set_conv_nth)
  then obtain x where "find P xs = Some x" by auto
  then show ?thesis by (auto simp: find_Some_iff)
qed

lemma find_none: "\<not> (\<exists>i < length xs. P (xs ! i)) \<Longrightarrow> find P xs = None"
  by (auto simp: find_None_iff in_set_conv_nth)

text \<open>
  What the matching does, for a selected team that has an abbreviation: the element taken
  from the response is the first one, in array order, that passes any of the four tests
  (name, name without case, abbreviation, abbreviation without case); when no element
  passes any of them it is the first element whose venue is \<open>Away\<close> for the away team
  and \<open>Home\<close> for the home team; when there is none either it is the element at
  position 0 for the away team and at position 1 for the home team, or nothing when the
  array is too short.
\<close>

lemma team_matching_chain:
  assumes "team_abbreviation selected = Some ab"
  shows
    "((\<exists>i < length teams. t_name (teams ! i) = Some (team_name selected)
          \<or> map_option toLowerCase (t_name (teams ! i)) = Some (toLowerCase (team_name selected))
          \<or> t_abbreviation (teams ! i) = Some ab
          \<or> map_option toLowerCase (t_abbreviation (teams ! i)) = Some (toLowerCase ab))
      \<longrightarrow> (\<exists>i < length teams.
             awayTeamData teams selected = Some (teams ! i)
             \<and> homeTeamData teams selected = Some (teams ! i)
             \<and> (t_name (teams ! i) = Some (team_name selected)
                \<or> map_option toLowerCase (t_name (teams ! i))
                    = Some (toLowerCase (team_name selected))
                \<or> t_abbreviation (teams ! i) = Some ab
                \<or> map_option toLowerCase (t_abbreviation (teams ! i)) = Some (toLowerCase ab))
             \<and> (\<forall>j < i. \<not> (t_name (teams ! j) = Some (team_name selected)
                \<or> map_option toLowerCase (t_name (teams ! j))
                    = Some (toLowerCase (team_name selected))
                \<or> t_abbreviation (teams ! j) = Some ab
                \<or> map_option toLowerCase (t_abbreviation (teams ! j))
                    = Some (toLowerCase ab)))))
     \<and> (\<not> (\<exists>i < length teams. t_name (teams ! i) = Some (team_name selected)
          \<or> map_option toLowerCase (t_name (teams ! i)) = Some (toLowerCase (team_name selected))
          \<or> t_abbreviation (teams ! i) = Some ab
          \<or> map_option toLowerCase (t_abbreviation (teams ! i)) = Some (toLowerCase ab))
      \<longrightarrow>
        ((\<exists>i < length teams. t_venue (teams ! i) = Some ''Away'')
           \<longrightarrow> (\<exists>i < length teams. awayTeamData teams selected = Some (teams ! i)
                  \<and> t_venue (teams ! i) = Some ''Away''
                  \<and> (\<forall>j < i. t_venue (teams ! j) \<noteq> Some ''Away'')))
        \<and> (\<not> (\<exists>i < length teams. t_venue (teams ! i) = Some ''Away'')
           \<longrightarrow> awayTeamData teams selected
                = (if 0 < length teams then Some (teams ! 0) else None))
        \<and> ((\<exists>i < length teams. t_venue (teams ! i) = Some ''Home'')
           \<longrightarrow> (\<exists>i < length teams. homeTeamData teams selected = Some (teams ! i)
                  \<and> t_venue (teams ! i) = Some ''Home''
                  \<and> (\<forall>j < i. t_venue (teams ! j) \<noteq> Some ''Home'')))
        \<and> (\<not> (\<exists>i < length teams. t_venue (teams ! i) = Some ''Home'')
           \<longrightarrow> homeTeamData teams selected
                = (if 1 < length teams then Some (teams ! 1) else None)))"
proof -
  define M where "M = (\<lambda>t::ApiTeam. t_name t = Some (team_name selected)
          \<or> map_option toLowerCase (t_name t) = Some (toLowerCase (team_name selected))
          \<or> t_abbreviation t = Some ab
          \<or> map_option toLowerCase (t_abbreviation t) = Some (toLowerCase ab))"
  have M: "matchesTeam selected = M"
    unfolding M_def matchesTeam_def using assms by (auto simp: fun_eq_iff)
  have first: "(\<exists>i < length teams. M (teams ! i)) \<longrightarrow>
      (\<exists>i < length teams. awayTeamData teams selected = Some (teams ! i)
         \<and> homeTeamData teams selected = Some (teams ! i)
         \<and> M (teams ! i) \<and> (\<forall>j < i. \<not> M (teams ! j)))"
  proof
    assume "\<exists>i < length teams. M (teams ! i)"
    from find_first [OF this] obtain i where "i < length teams"
      "find M teams = Some (teams ! i)" "M (teams ! i)" "\<forall>j < i. \<not> M (teams ! j)"
      by blast
    then show "\<exists>i < length teams. awayTeamData teams selected = Some (teams ! i)
         \<and> homeTeamData teams selected = Some (teams ! i)
         \<and> M (teams ! i) \<and> (\<forall>j < i. \<not> M (teams ! j))"
      unfolding awayTeamData_def homeTeamData_def M by auto
  qed
  have rest: "\<not> (\<exists>i < length teams. M (teams ! i)) \<longrightarrow>
        ((\<exists>i < length teams. t_venue (teams ! i) = Some ''Away'')
           \<longrightarrow> (\<exists>i < length teams. awayTeamData teams selected = Some (teams ! i)
                  \<and> t_venue (teams ! i) = Some ''Away''
                  \<and> (\<forall>j < i. t_venue (teams ! j) \<noteq> Some ''Away'')))
        \<and> (\<not> (\<exists>i < length teams. t_venue (teams ! i) = Some ''Away'')
           \<longrightarrow> awayTeamData teams selected
                = (if 0 < length teams then Some (teams ! 0) else None))
        \<and> ((\<exists>i < length teams. t_venue (teams ! i) = Some ''Home'')
           \<longrightarrow> (\<exists>i < length teams. homeTeamData teams selected = Some (teams ! i)
                  \<and> t_venue (teams ! i) = Some ''Home''
                  \<and> (\<forall>j < i. t_venue (teams ! j) \<noteq> Some ''Home'')))
        \<and> (\<not> (\<exists>i < length teams. t_venue (teams ! i) = Some ''Home'')
           \<longrightarrow> homeTeamData teams selected
                = (if 1 < length teams then Some (teams ! 1) else None))"
  proof
    assume "\<not> (\<exists>i < length teams. M (teams ! i))"
    then have none: "find M teams = None" by (rule find_none)
    have a1: "(\<exists>i < length teams. t_venue (teams ! i) = Some ''Away'')
           \<longrightarrow> (\<exists>i < length teams. awayTeamData teams selected = Some (teams ! i)
                  \<and> t_venue (teams ! i) = Some ''Away''
                  \<and> (\<forall>j < i. t_venue (teams ! j) \<noteq> Some ''Away''))"
    proof
      assume "\<exists>i < length teams. t_venue (teams ! i) = Some ''Away''"
      from find_first [of teams "\<lambda>t::ApiTeam. t_venue t = Some ''Away''", OF this]
      show "\<exists>i < length teams. awayTeamData teams selected = Some (teams ! i)
                  \<and> t_venue (teams ! i) = Some ''Away''
                  \<and> (\<forall>j < i. t_venue (teams ! j) \<noteq> Some ''Away'')"
        unfolding awayTeamData_def M none by auto
    qed
    have a2: "\<not> (\<exists>i < length teams. t_venue (teams ! i) = Some ''Away'')
           \<longrightarrow> awayTeamData teams selected
                = (if 0 < length teams then Some (teams ! 0) else None)"
    proof
      assume "\<not> (\<exists>i < length teams. t_venue (teams ! i) = Some ''Away'')"
      then have "find (\<lambda>t. t_venue t = Some ''Away'') teams = None" by (rule find_none)
      then show "awayTeamData teams selected
                = (if 0 < length teams then Some (teams ! 0) else None)"
        unfolding awayTeamData_def M none by (simp add: at_index_def)
    qed
    have h1: "(\<exists>i < length teams. t_venue (teams ! i) = Some ''Home'')
           \<longrightarrow> (\<exists>i < length teams. homeTeamData teams selected = Some (teams ! i)
                  \<and> t_venue (teams ! i) = Some ''Home''
                  \<and> (\<forall>j < i. t_venue (teams ! j) \<noteq> Some ''Home''))"
    proof
      assume "\<exists>i < length teams. t_venue (teams ! i) = Some ''Home''"
      from find_first [of teams "\<lambda>t::ApiTeam. t_venue t = Some ''Home''", OF this]
      show "\<exists>i < length teams. homeTeamData teams selected = Some (teams ! i)
                  \<and> t_venue (teams ! i) = Some ''Home''
                  \<and> (\<forall>j < i. t_venue (teams ! j) \<noteq> Some ''Home'')"
        unfolding homeTeamData_def M none by auto
    qed
    have h2: "\<not> (\<exists>i < length teams. t_venue (teams ! i) = Some ''Home'')
           \<longrightarrow> homeTeamData teams selected
                = (if 1 < length teams then Some (teams ! 1) else None)"
    proof
      assume "\<not> (\<exists>i < length teams. t_venue (teams ! i) = Some ''Home'')"
      then have "find (\<lambda>t. t_venue t = Some ''Home'') teams = None" by (rule find_none)
      then show "homeTeamData teams selected
                = (if 1 < length teams then Some (teams ! 1) else None)"
        unfolding homeTeamData_def M none by (simp add: at_index_def)
    qed
    show "((\<exists>i < length teams. t_venue (teams ! i) = Some ''Away'')
           \<longrightarrow> (\<exists>i < length teams. awayTeamData teams selected = Some (teams ! i)
                  \<and> t_venue (teams ! i) = Some ''Away''
                  \<and> (\<forall>j < i. t_venue (teams ! j) \<noteq> Some ''Away'')))
        \<and> (\<not> (\<exists>i < length teams. t_venue (teams ! i) = Some ''Away'')
           \<longrightarrow> awayTeamData teams selected
                = (if 0 < length teams then Some (teams ! 0) else None))
        \<and> ((\<exists>i < length teams. t_venue (teams ! i) = Some ''Home'')
           \<longrightarrow> (\<exists>i < length teams. homeTeamData teams selected = Some (teams ! i)
                  \<and> t_venue (teams ! i) = Some ''Home''
                  \<and> (\<forall>j < i. t_venue (teams ! j) \<noteq> Some ''Home'')))
        \<and> (\<not> (\<exists>i < length teams. t_venue (teams ! i) = Some ''Home'')
           \<longrightarrow> homeTeamData teams selected
                = (if 1 < length teams then Some (teams ! 1) else None))"
      using a1 a2 h1 h2 by blast
  qed
  show ?thesis
    using first rest unfolding M_def by blast
qed

lemma scenario_names_differ:
  "toLowerCase ''New York Giants'' \<noteq> toLowerCase ''Mississippi State''"
  "toLowerCase ''Dallas Cowboys'' \<noteq> toLowerCase ''Mississippi State''"
  "toLowerCase ''NYG'' \<noteq> toLowerCase ''MSU''"
  "toLowerCase ''DAL'' \<noteq> toLowerCase ''MSU''"
  by code_simp+

lemma team_matching_chain_example:
  "team_abbreviation mississippiState = Some ''MSU''
   \<and> t_abbreviation ([michiganStateData, mississippiStateData] ! 0) = Some ''MSU''
   \<and> awayTeamData [michiganStateData, mississippiStateData] mississippiState
       = Some michiganStateData
   \<and> homeTeamData [michiganStateData, mississippiStateData] mississippiState
       = Some michiganStateData
   \<and> t_venue ([scenarioHomeData, scenarioAwayData] ! 1) = Some ''Away''
   \<and> t_venue ([scenarioHomeData, scenarioAwayData] ! 0) = Some ''Home''
   \<and> awayTeamData [scenarioHomeData, scenarioAwayData] mississippiState = Some scenarioAwayData
   \<and> homeTeamData [scenarioHomeData, scenarioAwayData] mississippiState = Some scenarioHomeData"
proof -
  have ab: "team_abbreviation mississippiState = Some ''MSU''"
    by (simp add: mississippiState_def)
  have m0: "t_abbreviation ([michiganStateData, mississippiStateData] ! 0) = Some ''MSU''"
    by (simp add: michiganStateData_def)
  let ?ts = "[michiganStateData, mississippiStateData]"
  have ex: "\<exists>i < length ?ts. t_name (?ts ! i) = Some (team_name mississippiState)
          \<or> map_option toLowerCase (t_name (?ts ! i))
              = Some (toLowerCase (team_name mississippiState))
          \<or> t_abbreviation (?ts ! i) = Some ''MSU''
          \<or> map_option toLowerCase (t_abbreviation (?ts ! i)) = Some (toLowerCase ''MSU'')"
    using m0 by (intro exI [of _ 0]) simp
  from team_matching_chain [OF ab, of ?ts] ex
  obtain i where i: "i < length ?ts"
    "awayTeamData ?ts mississippiState = Some (?ts ! i)"
    "homeTeamData ?ts mississippiState = Some (?ts ! i)"
    "\<forall>j < i. \<not> (t_name (?ts ! j) = Some (team_name mississippiState)
          \<or> map_option toLowerCase (t_name (?ts ! j))
              = Some (toLowerCase (team_name mississippiState))
          \<or> t_abbreviation (?ts ! j) = Some ''MSU''
          \<or> map_option toLowerCase (t_abbreviation (?ts ! j)) = Some (toLowerCase ''MSU''))"
    by blast
  have "i = 0"
  proof (rule ccontr)
    assume "i \<noteq> 0"
    then have "0 < i" by simp
    with i(4) m0 show False by blast
  qed
  with i have first: "awayTeamData ?ts mississippiState = Some michiganStateData"
    "homeTeamData ?ts mississippiState = Some michiganStateData"
    by simp_all
  let ?us = "[scenarioHomeData, scenarioAwayData]"
  have v: "t_venue (?us ! 1) = Some ''Away''" "t_venue (?us ! 0) = Some ''Home''"
    "t_venue (?us ! 0) \<noteq> Some ''Away''" "t_venue (?us ! 1) \<noteq> Some ''Home''"
    by (simp_all add: scenarioHomeData_def scenarioAwayData_def)
  define N where "N = (\<lambda>t::ApiTeam. t_name t = Some (team_name mississippiState)
          \<or> map_option toLowerCase (t_name t) = Some (toLowerCase (team_name mississippiState))
          \<or> t_abbreviation t = Some ''MSU''
          \<or> map_option toLowerCase (t_abbreviation t) = Some (toLowerCase ''MSU''))"
  have n0: "\<not> N scenarioHomeData" and n1: "\<not> N scenarioAwayData"
    unfolding N_def using scenario_names_differ
    by (simp_all add: scenarioHomeData_def scenarioAwayData_def mississippiState_def)
  have "\<not> (\<exists>i < length ?us. N (?us ! i))"
  proof
    assume "\<exists>i < length ?us. N (?us ! i)"
    then obtain i where "i < Suc (Suc 0)" "N (?us ! i)" by auto
    then have "i = 0 \<or> i = 1" by (simp add: less_Suc_eq)
    then show False using \<open>N (?us ! i)\<close> n0 n1 by auto
  qed
  then have nm: "\<not> (\<exists>i < length ?us. t_name (?us ! i) = Some (team_name mississippiState)
          \<or> map_option toLowerCase (t_name (?us ! i))
              = Some (toLowerCase (team_name mississippiState))
          \<or> t_abbreviation (?us ! i) = Some ''MSU''
          \<or> map_option toLowerCase (t_abbreviation (?us ! i)) = Some (toLowerCase ''MSU''))"
    unfolding N_def .
  have exa: "\<exists>i < length ?us. t_venue (?us ! i) = Some ''Away''"
    using v(1) by (intro exI [of _ 1]) simp
  have exh: "\<exists>i < length ?us. t_venue (?us ! i) = Some ''Home''"
    using v(2) by (intro exI [of _ 0]) simp
  from team_matching_chain [OF ab, of ?us] nm exa
  obtain k where k: "k < length ?us" "awayTeamData ?us mississippiState = Some (?us ! k)"
    "t_venue (?us ! k) = Some ''Away''"
    by blast
  have "k = 0 \<or> k = 1" using k(1) by (simp add: less_Suc_eq)
  then have "k = 1" using k(3) v(3) by auto
  with k have away: "awayTeamData ?us mississippiState = Some scenarioAwayData" by simp
  from team_matching_chain [OF ab, of ?us] nm exh
  obtain l where l: "l < length ?us" "homeTeamData ?us mississippiState = Some (?us ! l)"
    "t_venue (?us ! l) = Some ''Home''"
    by blast
  have "l = 0 \<or> l = 1" using l(1) by (simp add: less_Suc_eq)
  then have "l = 0" using l(3) v(4) by auto
  with l have home: "homeTeamData ?us mississippiState = Some scenarioHomeData" by simp
  show ?thesis using ab m0 first v(1,2) away home by simp
qed

text \<open>
  Claim C9 on two responses that list the home team first. In the first the two teams
  share the abbreviation \<open>MSU\<close>: the away team Mississippi State is matched to the
  element of Michigan State, which passes the abbreviation test and comes first, although
  the second element carries the exact name; the ordered chain of the specification takes
  the second. In the second no abbreviation is present on either side: the absent
  abbreviations compare equal, so the away team Dallas Cowboys is matched to the first
  element, the New York Giants.
\<close>

theorem team_matching_failing_input:
  "awayTeamData [michiganStateData, mississippiStateData] mississippiState
     = Some michiganStateData
   \<and> specAwayTeamData [michiganStateData, mississippiStateData] mississippiState
     = Some mississippiStateData
   \<and> awayTeamData [scenarioHomeData\<lparr>t_abbreviation := None\<rparr>,
                    scenarioAwayData\<lparr>t_abbreviation := None\<rparr>] dallasCowboys
     = Some (scenarioHomeData\<lparr>t_abbreviation := None\<rparr>)
   \<and> specAwayTeamData [scenarioHomeData\<lparr>t_abbreviation := None\<rparr>,
                        scenarioAwayData\<lparr>t_abbreviation := None\<rparr>] dallasCowboys
     = Some (scenarioAwayData\<lparr>t_abbreviation := None\<rparr>)"
proof -
  have a: "awayTeamData [michiganStateData, mississippiStateData] mississippiState
     = Some michiganStateData"
    by (simp add: awayTeamData_def matchesTeam_def michiganStateData_def
          mississippiStateData_def mississippiState_def)
  have b: "specAwayTeamData [michiganStateData, mississippiStateData] mississippiState
     = Some mississippiStateData"
    by (simp add: specAwayTeamData_def orElseTeam_def michiganStateData_def
          mississippiStateData_def mississippiState_def)
  have c: "awayTeamData [scenarioHomeData\<lparr>t_abbreviation := None\<rparr>,
                    scenarioAwayData\<lparr>t_abbreviation := None\<rparr>] dallasCowboys
     = Some (scenarioHomeData\<lparr>t_abbreviation := None\<rparr>)"
    by (simp add: awayTeamData_def matchesTeam_def scenarioHomeData_def scenarioAwayData_def
          dallasCowboys_def)
  have d: "specAwayTeamData [scenarioHomeData\<lparr>t_abbreviation := None\<rparr>,
                        scenarioAwayData\<lparr>t_abbreviation := None\<rparr>] dallasCowboys
     = Some (scenarioAwayData\<lparr>t_abbreviation := None\<rparr>)"
    by (simp add: specAwayTeamData_def orElseTeam_def scenarioHomeData_def scenarioAwayData_def
          dallasCowboys_def)
  show ?thesis using a b c d by simp
qed

end
